theory Spec2Isabelle
  imports Main
begin

section \<open>Python values used by the two scripts\<close>

text \<open>
  The two command-line scripts \<^verbatim>\<open>chroma_version_analysis.py\<close> and
  \<^verbatim>\<open>chroma_diagnostic.py\<close> are embedded as state-passing functions. Text is a
  \<^typ>\<open>string\<close>; each character stands for one code point below 256.

  A decoded JSON document is a \<open>json\<close> value. A Python \<open>dict\<close> is an association list in
  insertion order (Python dictionaries keep it, and \<open>json.dumps\<close> writes the keys in that
  order). A Python \<open>float\<close> is carried by the text that \<open>json.dumps\<close> writes for it:
  what \<open>float.__repr__\<close> gives for a finite number, and \<open>NaN\<close>, \<open>Infinity\<close> or
  \<open>-Infinity\<close> for the others.
\<close>

datatype json =
    JNull
  | JBool bool
  | JInt int
  | JFloat string
  | JStr string
  | JArr "json list"
  | JObj "(string \<times> json) list"

type_synonym pydict = "(string \<times> json) list"

text \<open>\<open>key in d\<close>\<close>

definition dict_contains :: "string \<Rightarrow> pydict \<Rightarrow> bool" where
  "dict_contains k d = (map_of d k \<noteq> None)"

text \<open>\<open>d[key] = value\<close>: an existing key keeps its position, a new key goes last.\<close>

fun dict_setitem :: "string \<Rightarrow> json \<Rightarrow> pydict \<Rightarrow> pydict" where
  "dict_setitem k v [] = [(k, v)]"
| "dict_setitem k v ((k', v') # d) =
     (if k' = k then (k, v) # d else (k', v') # dict_setitem k v d)"

text \<open>An exception object: the name of its class and its message (\<open>str(e)\<close>). The
  exceptions modelled are the ones that derive from \<open>Exception\<close>, which is what the
  scripts' handlers catch.\<close>

datatype exc = Exc (exc_kind: string) (exc_msg: string)

text \<open>The outcome of \<open>json.loads\<close>: the decoded value, a \<open>JSONDecodeError\<close> with its
  message, or any other exception.\<close>

datatype loads_result = Loaded json | JSONDecodeError string | LoadsRaised exc

text \<open>The single quote and the line feed, as one-character texts.\<close>

abbreviation sq :: string where
  "sq \<equiv> [CHR 0x27]"

abbreviation nl :: string where
  "nl \<equiv> [CHR 0x0A]"

text \<open>The type name Python puts into an \<open>AttributeError\<close> message.\<close>

fun py_type_name :: "json \<Rightarrow> string" where
  "py_type_name JNull = ''NoneType''"
| "py_type_name (JBool b) = ''bool''"
| "py_type_name (JInt i) = ''int''"
| "py_type_name (JFloat r) = ''float''"
| "py_type_name (JStr s) = ''str''"
| "py_type_name (JArr xs) = ''list''"
| "py_type_name (JObj d) = ''dict''"

definition no_attribute :: "json \<Rightarrow> string \<Rightarrow> exc" where
  "no_attribute v a =
     Exc ''AttributeError'' (sq @ py_type_name v @ sq @ '' object has no attribute '' @ sq @ a @ sq)"

subsection \<open>\<open>json.dumps\<close> with its default arguments\<close>

text \<open>
  \<open>json.dumps(obj)\<close> is called with no options, so the separators are \<open>', '\<close> and
  \<open>': '\<close>, \<open>ensure_ascii\<close> is on and nothing is indented. A string is written between
  double quotes; the double quote and the backslash are escaped with a backslash, the
  control characters \<open>\n \r \t \b \f\<close> by their letter, and every other character outside
  the range from space to \<open>~\<close> as \<open>\uXXXX\<close> with four lower-case hexadecimal digits.
\<close>

definition hex_digit :: "nat \<Rightarrow> char" where
  "hex_digit d = (if d < 10 then char_of (48 + d) else char_of (87 + d))"

definition py_escape_char :: "char \<Rightarrow> string" where
  "py_escape_char c =
     (let n = (of_char c :: nat) in
      if c = CHR 0x22 then [CHR 0x5C, CHR 0x22]
      else if c = CHR 0x5C then [CHR 0x5C, CHR 0x5C]
      else if c = CHR 0x0A then [CHR 0x5C, CHR ''n'']
      else if c = CHR 0x0D then [CHR 0x5C, CHR ''r'']
      else if c = CHR 0x09 then [CHR 0x5C, CHR ''t'']
      else if c = CHR 0x08 then [CHR 0x5C, CHR ''b'']
      else if c = CHR 0x0C then [CHR 0x5C, CHR ''f'']
      else if 32 \<le> n \<and> n \<le> 126 then [c]
      else [CHR 0x5C, CHR ''u'', CHR ''0'', CHR ''0'', hex_digit (n div 16), hex_digit (n mod 16)])"

definition py_encode_string :: "string \<Rightarrow> string" where
  "py_encode_string s = [CHR 0x22] @ concat (map py_escape_char s) @ [CHR 0x22]"

text \<open>\<open>int.__repr__\<close>: the decimal digits, after a minus sign for a negative number.\<close>

definition digit_char :: "nat \<Rightarrow> char" where
  "digit_char d = char_of (48 + d)"

fun repr_nat :: "nat \<Rightarrow> string" where
  "repr_nat n = (if 10 \<le> n then repr_nat (n div 10) @ [digit_char (n mod 10)] else [digit_char n])"

declare repr_nat.simps [simp del]

definition repr_int :: "int \<Rightarrow> string" where
  "repr_int i = (if 0 \<le> i then repr_nat (nat i) else ''-'' @ repr_nat (nat (- i)))"

text \<open>\<open>sep.join(parts)\<close>\<close>

fun join :: "string \<Rightarrow> string list \<Rightarrow> string" where
  "join sep [] = []"
| "join sep [x] = x"
| "join sep (x # y # ys) = x @ sep @ join sep (y # ys)"

fun dumps :: "json \<Rightarrow> string" where
  "dumps JNull = ''null''"
| "dumps (JBool b) = (if b then ''true'' else ''false'')"
| "dumps (JInt i) = repr_int i"
| "dumps (JFloat r) = r"
| "dumps (JStr s) = py_encode_string s"
| "dumps (JArr xs) = ''['' @ join '', '' (map dumps xs) @ '']''"
| "dumps (JObj d) =
     ''{'' @ join '', '' (map (\<lambda>kv. py_encode_string (fst kv) @ '': '' @ dumps (snd kv)) d) @ ''}''"


section \<open>The world outside the scripts\<close>

text \<open>
  A row of the \<open>collections\<close> table as the scripts select it: \<open>id\<close>, \<open>name\<close> and the
  nullable text column \<open>configuration_json_str\<close>. A collection handle of the client
  library shows a name and an identifier.
\<close>

type_synonym row = "string \<times> string \<times> string option"

type_synonym collection = "string \<times> string"

text \<open>The three ways the scripts call \<open>chromadb.PersistentClient\<close>.\<close>

datatype client_args =
    PathOnly string
  | PathWithSettings string
  | PathAllowResetKeyword string

text \<open>
  Every print statement of the two scripts is one constructor, with the values the
  statement interpolates as arguments; the constructors are grouped by the function that
  prints them, and the comment gives the line.
\<close>

datatype version_info_msg =
    VersionInfoBanner  \<comment> \<open>16\<close>
  | VersionIs string  \<comment> \<open>17\<close>
  | WarnVersion06  \<comment> \<open>22\<close>
  | RecommendFor06  \<comment> \<open>23\<close>
  | WarnVersion10  \<comment> \<open>25\<close>
  | RecommendFor10  \<comment> \<open>26\<close>
  | VersionHandlesType  \<comment> \<open>28\<close>

datatype config_analysis_msg =
    AnalyzingConfigurationBanner  \<comment> \<open>34\<close>
  | ErrNoSqliteFile  \<comment> \<open>45\<close>
  | AnalyzingSqlite string  \<comment> \<open>48\<close>
  | FoundCollections nat  \<comment> \<open>61\<close>
  | CollectionHeader string string  \<comment> \<open>67: name, id\<close>
  | ConfigurationKeys "string list"  \<comment> \<open>72\<close>
  | ProblemMissingType  \<comment> \<open>76\<close>
  | SuggestionHnsw  \<comment> \<open>81\<close>
  | ConfigurationHasType json  \<comment> \<open>84\<close>
  | ProblemInvalidJson string  \<comment> \<open>87\<close>
  | ProblemNoConfiguration  \<comment> \<open>90\<close>
  | ErrAnalyzingSqlite string  \<comment> \<open>97\<close>

datatype migration_msg =
    NoIssuesFound  \<comment> \<open>103\<close>
  | GeneratingBanner  \<comment> \<open>106\<close>
  | ScriptWrittenTo string  \<comment> \<open>155\<close>
  | ToApplyTheMigration  \<comment> \<open>156\<close>
  | StepBackup string  \<comment> \<open>157\<close>
  | StepApply string string  \<comment> \<open>158: storage file, script path\<close>
  | StepTest  \<comment> \<open>159\<close>

datatype connection_msg =
    TestingApproachesBanner  \<comment> \<open>163\<close>
  | Testing string  \<comment> \<open>174\<close>
  | SuccessFound nat  \<comment> \<open>178\<close>
  | CollectionName string  \<comment> \<open>180\<close>
  | FailedWith string string  \<comment> \<open>183: exception kind, message\<close>

datatype version_main_msg =
    UsageVersionAnalysis  \<comment> \<open>189\<close>
  | TitleVersionAnalysis  \<comment> \<open>195\<close>
  | RuleVersionAnalysis  \<comment> \<open>196\<close>
  | ErrPathDoesNotExist string  \<comment> \<open>203\<close>
  | RecommendationsBanner  \<comment> \<open>216\<close>
  | VersionAdvice nat  \<comment> \<open>217 to 221, numbered 1 to 5\<close>

datatype database_files_msg =
    AnalyzingAt string  \<comment> \<open>16\<close>
  | ClientVersionIs string  \<comment> \<open>17\<close>
  | ErrDatabasePathMissing string  \<comment> \<open>20\<close>
  | DatabaseFiles  \<comment> \<open>24\<close>
  | FileEntry string nat  \<comment> \<open>29\<close>
  | DirectoryEntry string  \<comment> \<open>31\<close>
  | PotentialSqliteFiles "string list"  \<comment> \<open>35\<close>
  | AnalyzingSqliteDatabase string  \<comment> \<open>53\<close>
  | WarnNoSqliteFile  \<comment> \<open>56\<close>

datatype client_test_msg =
    TestingClientBanner  \<comment> \<open>59\<close>
  | ConnectedToDatabase  \<comment> \<open>62\<close>
  | ListedCollections nat  \<comment> \<open>67\<close>
  | CollectionEntry string string  \<comment> \<open>69: name, id\<close>
  | ErrListingCollections string  \<comment> \<open>71\<close>
  | ErrorType string  \<comment> \<open>72, 77\<close>
  | ErrConnecting string  \<comment> \<open>76\<close>

datatype sqlite_structure_msg =
    Tables "string list"  \<comment> \<open>91\<close>
  | CollectionsTableStructure  \<comment> \<open>95\<close>
  | ColumnEntry string string  \<comment> \<open>99\<close>
  | SampleCollectionData nat  \<comment> \<open>104\<close>
  | SampleRow string string  \<comment> \<open>107: id, name\<close>
  | SampleConfiguration json  \<comment> \<open>111: the value, printed with \<open>indent=6\<close>\<close>
  | SampleInvalidJson string  \<comment> \<open>113\<close>
  | SampleJsonError string  \<comment> \<open>114\<close>
  | ErrSqlite string  \<comment> \<open>118\<close>

datatype migration_test_msg =
    TestingMigrationBanner  \<comment> \<open>122\<close>
  | CreatingBackupAt string  \<comment> \<open>128\<close>
  | TryingConfiguration nat client_args  \<comment> \<open>139\<close>
  | SuccessWith nat  \<comment> \<open>143\<close>
  | Failed string  \<comment> \<open>146: the message only\<close>
  | MigrationTestFailed string  \<comment> \<open>149\<close>

datatype diagnostic_main_msg =
    UsageDiagnostic  \<comment> \<open>155\<close>
  | UsageExample  \<comment> \<open>156\<close>
  | TitleDiagnostic  \<comment> \<open>161\<close>
  | RuleDiagnostic  \<comment> \<open>162\<close>
  | AttemptingRepairBanner  \<comment> \<open>167\<close>
  | DiagnosticRecommendationsBanner  \<comment> \<open>170\<close>
  | DatabaseCompatible  \<comment> \<open>172\<close>
  | DatabaseIncompatible  \<comment> \<open>174\<close>
  | DiagnosticAdvice nat  \<comment> \<open>175 to 178, numbered 1 to 4\<close>

text \<open>The first five groups are printed by \<^verbatim>\<open>chroma_version_analysis.py\<close>, the other
  five by \<^verbatim>\<open>chroma_diagnostic.py\<close>.\<close>

datatype msg =
    VI version_info_msg  \<comment> \<open>\<open>check_chromadb_version_info\<close>\<close>
  | CA config_analysis_msg  \<comment> \<open>\<open>analyze_configuration_error\<close>\<close>
  | MG migration_msg  \<comment> \<open>\<open>generate_migration_script\<close>\<close>
  | CN connection_msg  \<comment> \<open>\<open>test_chromadb_connection_with_fixes\<close>\<close>
  | VM version_main_msg  \<comment> \<open>\<open>main\<close> of the version analysis\<close>
  | DF database_files_msg  \<comment> \<open>\<open>analyze_chroma_database\<close>, lines 16 to 56\<close>
  | CT client_test_msg  \<comment> \<open>\<open>analyze_chroma_database\<close>, lines 59 to 77\<close>
  | SS sqlite_structure_msg  \<comment> \<open>\<open>analyze_sqlite_structure\<close>\<close>
  | MT migration_test_msg  \<comment> \<open>\<open>test_database_migration\<close>\<close>
  | DM diagnostic_main_msg  \<comment> \<open>\<open>main\<close> of the diagnostic\<close>

text \<open>
  What a run does, in order: what it prints and which calls it makes to the storage
  engine, the JSON decoder, the client library and the file system.
\<close>

datatype event =
    Print msg
  | ListDir string
  | SqliteQuery string
  | JsonLoads string
  | ClientOpen client_args
  | ListCollections
  | CopyTree string string
  | WriteFile string string

text \<open>
  The libraries the scripts call are parameters: \<open>'w\<close> is the state of the file system
  and of the database, \<open>'c\<close> an opened client. A call that may raise returns a sum, the
  exception on the left. Calls that may change the world return the new one.
\<close>

record ('w, 'c) env =
  chromadb_version :: string
  path_exists :: "string \<Rightarrow> 'w \<Rightarrow> bool"
  path_isfile :: "string \<Rightarrow> 'w \<Rightarrow> bool"
  path_getsize :: "string \<Rightarrow> 'w \<Rightarrow> nat"
  listdir :: "string \<Rightarrow> 'w \<Rightarrow> exc + string list"
  loads :: "string \<Rightarrow> loads_result"
  sqlite_tables :: "string \<Rightarrow> 'w \<Rightarrow> exc + string list"
  sqlite_table_info :: "string \<Rightarrow> 'w \<Rightarrow> exc + (string \<times> string) list"
  sqlite_sample :: "string \<Rightarrow> 'w \<Rightarrow> exc + row list"
  sqlite_collections :: "string \<Rightarrow> string option \<Rightarrow> 'w \<Rightarrow> exc + row list"
  persistent_client :: "client_args \<Rightarrow> 'w \<Rightarrow> (exc + 'c) \<times> 'w"
  list_collections :: "'c \<Rightarrow> 'w \<Rightarrow> (exc + collection list) \<times> 'w"
  copytree :: "string \<Rightarrow> string \<Rightarrow> 'w \<Rightarrow> (exc + unit) \<times> 'w"
  write_text :: "string \<Rightarrow> string \<Rightarrow> 'w \<Rightarrow> (exc + unit) \<times> 'w"

record 'w st =
  world :: 'w
  trace :: "event list"

definition emit :: "event \<Rightarrow> 'w st \<Rightarrow> 'w st" where
  "emit e s = s\<lparr>trace := trace s @ [e]\<rparr>"

definition print :: "msg \<Rightarrow> 'w st \<Rightarrow> 'w st" where
  "print m s = emit (Print m) s"

definition prints :: "msg list \<Rightarrow> 'w st \<Rightarrow> 'w st" where
  "prints ms s = fold print ms s"

text \<open>The library calls, each recorded in the trace before it runs.\<close>

definition json_loads :: "('w, 'c) env \<Rightarrow> string \<Rightarrow> 'w st \<Rightarrow> loads_result \<times> 'w st" where
  "json_loads E text s = (loads E text, emit (JsonLoads text) s)"

definition open_client :: "('w, 'c) env \<Rightarrow> client_args \<Rightarrow> 'w st \<Rightarrow> (exc + 'c) \<times> 'w st" where
  "open_client E a s =
     (case persistent_client E a (world s) of
        (r, w') \<Rightarrow> (r, (emit (ClientOpen a) s)\<lparr>world := w'\<rparr>))"

definition client_list_collections ::
  "('w, 'c) env \<Rightarrow> 'c \<Rightarrow> 'w st \<Rightarrow> (exc + collection list) \<times> 'w st" where
  "client_list_collections E c s =
     (case list_collections E c (world s) of
        (r, w') \<Rightarrow> (r, (emit ListCollections s)\<lparr>world := w'\<rparr>))"

definition shutil_copytree :: "('w, 'c) env \<Rightarrow> string \<Rightarrow> string \<Rightarrow> 'w st \<Rightarrow> (exc + unit) \<times> 'w st" where
  "shutil_copytree E src dst s =
     (case copytree E src dst (world s) of
        (r, w') \<Rightarrow> (r, (emit (CopyTree src dst) s)\<lparr>world := w'\<rparr>))"

definition write_file :: "('w, 'c) env \<Rightarrow> string \<Rightarrow> string \<Rightarrow> 'w st \<Rightarrow> (exc + unit) \<times> 'w st" where
  "write_file E path text s =
     (case write_text E path text (world s) of
        (r, w') \<Rightarrow> (r, (emit (WriteFile path text) s)\<lparr>world := w'\<rparr>))"

text \<open>\<open>os.path.join\<close> and \<open>os.path.dirname\<close>, as \<open>posixpath\<close> defines them.\<close>

definition path_join :: "string \<Rightarrow> string \<Rightarrow> string" where
  "path_join a b =
     (if b \<noteq> [] \<and> hd b = CHR ''/'' then b
      else if a = [] \<or> last a = CHR ''/'' then a @ b
      else a @ ''/'' @ b)"

definition path_dirname :: "string \<Rightarrow> string" where
  "path_dirname p =
     (let head = rev (dropWhile (\<lambda>c. c \<noteq> CHR ''/'') (rev p)) in
      if head \<noteq> [] \<and> \<not> list_all (\<lambda>c. c = CHR ''/'') head
      then rev (dropWhile (\<lambda>c. c = CHR ''/'') (rev head))
      else head)"

text \<open>\<open>s.startswith(p)\<close>, and the comparison \<open>s < t\<close> of two texts, by code point.\<close>

fun startswith :: "string \<Rightarrow> string \<Rightarrow> bool" where
  "startswith s [] = True"
| "startswith [] (p # ps) = False"
| "startswith (c # cs) (p # ps) = (c = p \<and> startswith cs ps)"

fun str_less :: "string \<Rightarrow> string \<Rightarrow> bool" where
  "str_less [] [] = False"
| "str_less [] (y # ys) = True"
| "str_less (x # xs) [] = False"
| "str_less (x # xs) (y # ys) =
     ((of_char x :: nat) < of_char y \<or> (x = y \<and> str_less xs ys))"


section \<open>\<^verbatim>\<open>chroma_version_analysis.py\<close>\<close>

subsection \<open>\<open>check_chromadb_version_info\<close>\<close>

definition check_chromadb_version_info :: "('w, 'c) env \<Rightarrow> 'w st \<Rightarrow> string \<times> 'w st" where
  "check_chromadb_version_info E s0 =
     (let s1 = prints [VI VersionInfoBanner, VI (VersionIs (chromadb_version E))] s0;
          version = chromadb_version E;
          s2 = (if startswith version ''0.6'' then prints [VI WarnVersion06, VI RecommendFor06] s1
                else if startswith version ''1.0'' \<and> str_less version ''1.0.7''
                  then prints [VI WarnVersion10, VI RecommendFor10] s1
                else if \<not> str_less version ''1.0.7'' then print (VI VersionHandlesType) s1
                else s1)
      in (version, s2))"

subsection \<open>\<open>analyze_configuration_error\<close>\<close>

text \<open>
  An entry of \<open>problematic_configs\<close>: identifier, name, and the decoded configuration or
  \<open>None\<close>.
\<close>

type_synonym problem = "string \<times> string \<times> pydict option"

text \<open>What the function returns: \<open>False\<close> (line 46), \<open>None\<close> (line 98) or the list
  (line 94). Only a non-empty list is true in a condition.\<close>

datatype analysis = ReturnedFalse | ReturnedNone | Problems "problem list"

fun problems_of :: "analysis \<Rightarrow> problem list" where
  "problems_of (Problems ps) = ps"
| "problems_of ReturnedFalse = []"
| "problems_of ReturnedNone = []"

definition truthy :: "analysis \<Rightarrow> bool" where
  "truthy a = (problems_of a \<noteq> [])"

definition type_key :: string where
  "type_key = ''_type''"

definition internal_type :: json where
  "internal_type = JStr ''CollectionConfigurationInternal''"

text \<open>
  The body of the loop over the rows (lines 66 to 91). The text of the configuration is
  decoded only when it is true in a condition, that is neither \<open>None\<close> nor empty. A
  decoded value that is not a dictionary has no \<open>keys\<close>: line 72 raises
  \<open>AttributeError\<close>, which leaves the loop. Line 77 appends the dictionary object
  itself, so the key that line 82 stores afterwards is in the appended entry.
\<close>

definition analyze_row ::
  "('w, 'c) env \<Rightarrow> row \<Rightarrow> problem list \<Rightarrow> 'w st \<Rightarrow> (exc + problem list) \<times> 'w st" where
  "analyze_row E r problematic_configs s0 =
     (case r of (collection_id, name, config_json_str) \<Rightarrow>
      let s1 = print (CA (CollectionHeader name collection_id)) s0;
          no_configuration =
            (Inr (problematic_configs @ [(collection_id, name, None)]),
             print (CA ProblemNoConfiguration) s1)
      in (case config_json_str of
           None \<Rightarrow> no_configuration
         | Some text \<Rightarrow>
             if text = [] then no_configuration
             else (case json_loads E text s1 of
                 (JSONDecodeError m, s2) \<Rightarrow>
                   (Inr (problematic_configs @ [(collection_id, name, None)]),
                    print (CA (ProblemInvalidJson m)) s2)
               | (LoadsRaised e, s2) \<Rightarrow> (Inl e, s2)
               | (Loaded (JObj config), s2) \<Rightarrow>
                   (let s3 = print (CA (ConfigurationKeys (map fst config))) s2 in
                    case map_of config type_key of
                      None \<Rightarrow>
                        (let s4 = print (CA ProblemMissingType) s3 in
                         if dict_contains ''hnsw'' config
                         then (Inr (problematic_configs @
                                 [(collection_id, name, Some (dict_setitem type_key internal_type config))]),
                               print (CA SuggestionHnsw) s4)
                         else (Inr (problematic_configs @ [(collection_id, name, Some config)]), s4))
                    | Some t \<Rightarrow> (Inr problematic_configs, print (CA (ConfigurationHasType t)) s3))
               | (Loaded v, s2) \<Rightarrow> (Inl (no_attribute v ''keys''), s2))))"

fun analyze_rows ::
  "('w, 'c) env \<Rightarrow> row list \<Rightarrow> problem list \<Rightarrow> 'w st \<Rightarrow> (exc + problem list) \<times> 'w st" where
  "analyze_rows E [] problematic_configs s = (Inr problematic_configs, s)"
| "analyze_rows E (r # rs) problematic_configs s =
     (case analyze_row E r problematic_configs s of
        (Inl e, s') \<Rightarrow> (Inl e, s')
      | (Inr problematic_configs', s') \<Rightarrow> analyze_rows E rs problematic_configs' s')"

text \<open>The first candidate file name that exists in the directory (lines 38 to 42).\<close>

fun first_existing :: "('w, 'c) env \<Rightarrow> string \<Rightarrow> string list \<Rightarrow> 'w \<Rightarrow> string option" where
  "first_existing E db_path [] w = None"
| "first_existing E db_path (candidate # candidates) w =
     (let candidate_path = path_join db_path candidate in
      if path_exists E candidate_path w then Some candidate_path
      else first_existing E db_path candidates w)"

text \<open>Lines 51 to 60: connect, run the query (with the name filter when a name was
  given and is not empty), fetch all rows.\<close>

definition select_collections ::
  "('w, 'c) env \<Rightarrow> string \<Rightarrow> string option \<Rightarrow> 'w st \<Rightarrow> (exc + row list) \<times> 'w st" where
  "select_collections E sqlite_path collection_name s =
     (let name_filter = (case collection_name of
                           None \<Rightarrow> None
                         | Some n \<Rightarrow> if n = [] then None else Some n)
      in (sqlite_collections E sqlite_path name_filter (world s), emit (SqliteQuery sqlite_path) s))"

definition analyze_configuration_error ::
  "('w, 'c) env \<Rightarrow> string \<Rightarrow> string option \<Rightarrow> 'w st \<Rightarrow> analysis \<times> 'w st" where
  "analyze_configuration_error E db_path collection_name s0 =
     (let s1 = print (CA AnalyzingConfigurationBanner) s0 in
      case first_existing E db_path [''chroma.sqlite3'', ''chroma.db''] (world s1) of
        None \<Rightarrow> (ReturnedFalse, print (CA ErrNoSqliteFile) s1)
      | Some sqlite_path \<Rightarrow>
          (let s2 = print (CA (AnalyzingSqlite sqlite_path)) s1 in
           case select_collections E sqlite_path collection_name s2 of
             (Inl e, s3) \<Rightarrow> (ReturnedNone, print (CA (ErrAnalyzingSqlite (exc_msg e))) s3)
           | (Inr rows, s3) \<Rightarrow>
               (case analyze_rows E rows [] (print (CA (FoundCollections (length rows))) s3) of
                  (Inl e, s4) \<Rightarrow> (ReturnedNone, print (CA (ErrAnalyzingSqlite (exc_msg e))) s4)
                | (Inr problematic_configs, s4) \<Rightarrow> (Problems problematic_configs, s4))))"

subsection \<open>\<open>generate_migration_script\<close>\<close>

definition default_config :: pydict where
  "default_config =
     [(type_key, internal_type), (''hnsw'', JObj []), (''embedding_function'', JObj [])]"

text \<open>Lines 119 and 120.\<close>

definition add_missing_type :: "pydict \<Rightarrow> pydict" where
  "add_missing_type config =
     (if \<not> dict_contains type_key config then dict_setitem type_key internal_type config
      else config)"

text \<open>The dictionary that is serialized for an entry: lines 119 to 122 for a decoded
  configuration, lines 131 to 136 for \<open>None\<close>.\<close>

definition corrected_config :: "pydict option \<Rightarrow> pydict" where
  "corrected_config config =
     (case config of Some c \<Rightarrow> add_missing_type c | None \<Rightarrow> default_config)"

text \<open>Lines 108 to 114: the text the script starts with.\<close>

definition script_header :: "string \<Rightarrow> string" where
  "script_header db_path =
     ''-- ChromaDB Configuration Migration Script'' @ nl @
     ''-- Generated for database: '' @ db_path @ nl @
     ''-- Fixes missing '' @ sq @ ''_type'' @ sq @ '' fields in collection configurations'' @ nl @
     nl @
     ''BEGIN TRANSACTION;'' @ nl @
     nl"

text \<open>Lines 117 to 142: the text one entry adds to the script.\<close>

definition fix_statement :: "problem \<Rightarrow> string" where
  "fix_statement p =
     (case p of (collection_id, name, config) \<Rightarrow>
      (case config of
         Some c \<Rightarrow>
           (let updated_json = dumps (JObj (add_missing_type c)) in
            ''-- Fix collection: '' @ name @ nl @
            ''UPDATE collections '' @ nl @
            ''SET configuration_json_str = '' @ sq @ updated_json @ sq @ nl @
            ''WHERE id = '' @ sq @ collection_id @ sq @ '';'' @ nl @
            nl)
       | None \<Rightarrow>
           (let updated_json = dumps (JObj default_config) in
            ''-- Fix collection with default config: '' @ name @ nl @
            ''UPDATE collections '' @ nl @
            ''SET configuration_json_str = '' @ sq @ updated_json @ sq @ nl @
            ''WHERE id = '' @ sq @ collection_id @ sq @ '';'' @ nl @
            nl)))"

text \<open>The loop of line 116, with the script built so far.\<close>

fun add_statements :: "problem list \<Rightarrow> string \<Rightarrow> string" where
  "add_statements [] migration_script = migration_script"
| "add_statements (p # ps) migration_script = add_statements ps (migration_script @ fix_statement p)"

text \<open>Lines 144 to 149.\<close>

definition script_footer :: string where
  "script_footer =
     nl @
     ''COMMIT;'' @ nl @
     nl @
     ''-- Verify the changes'' @ nl @
     ''SELECT id, name, configuration_json_str FROM collections;'' @ nl"

definition migration_script_text :: "string \<Rightarrow> problem list \<Rightarrow> string" where
  "migration_script_text db_path problematic_configs =
     add_statements problematic_configs (script_header db_path) @ script_footer"

text \<open>An exception of \<open>open\<close> or \<open>write\<close> (line 152) is not caught: the function ends
  with it.\<close>

definition generate_migration_script ::
  "('w, 'c) env \<Rightarrow> string \<Rightarrow> problem list \<Rightarrow> 'w st \<Rightarrow> (exc + unit) \<times> 'w st" where
  "generate_migration_script E db_path problematic_configs s0 =
     (if problematic_configs = [] then (Inr (), print (MG NoIssuesFound) s0)
      else
        (let s1 = print (MG GeneratingBanner) s0;
             migration_script = migration_script_text db_path problematic_configs;
             script_path = path_join (path_dirname db_path) ''chroma_migration.sql''
         in case write_file E script_path migration_script s1 of
              (Inl e, s2) \<Rightarrow> (Inl e, s2)
            | (Inr u, s2) \<Rightarrow>
                (Inr (),
                 prints [MG (ScriptWrittenTo script_path), MG ToApplyTheMigration,
                         MG (StepBackup db_path),
                         MG (StepApply (path_join db_path ''chroma.sqlite3'') script_path),
                         MG StepTest] s2)))"

subsection \<open>\<open>test_chromadb_connection_with_fixes\<close>\<close>

text \<open>Lines 176 and 177: open the client, then list the collections through it.\<close>

definition connect_and_list ::
  "('w, 'c) env \<Rightarrow> client_args \<Rightarrow> 'w st \<Rightarrow> (exc + collection list) \<times> 'w st" where
  "connect_and_list E a s =
     (case open_client E a s of
        (Inl e, s1) \<Rightarrow> (Inl e, s1)
      | (Inr client, s1) \<Rightarrow> client_list_collections E client s1)"

text \<open>The loop of line 173 over the named approaches.\<close>

fun try_approaches :: "('w, 'c) env \<Rightarrow> (string \<times> client_args) list \<Rightarrow> 'w st \<Rightarrow> bool \<times> 'w st" where
  "try_approaches E [] s = (False, s)"
| "try_approaches E ((name, client_func) # approaches) s =
     (let s1 = print (CN (Testing name)) s in
      case connect_and_list E client_func s1 of
        (Inr collections, s2) \<Rightarrow>
          (True, prints (CN (SuccessFound (length collections)) #
                         map (\<lambda>c. CN (CollectionName (fst c))) collections) s2)
      | (Inl e, s2) \<Rightarrow>
          try_approaches E approaches (print (CN (FailedWith (exc_kind e) (exc_msg e))) s2))"

definition approaches :: "string \<Rightarrow> (string \<times> client_args) list" where
  "approaches db_path =
     [(''Standard PersistentClient'', PathOnly db_path),
      (''PersistentClient with settings'', PathWithSettings db_path)]"

definition test_chromadb_connection_with_fixes ::
  "('w, 'c) env \<Rightarrow> string \<Rightarrow> 'w st \<Rightarrow> bool \<times> 'w st" where
  "test_chromadb_connection_with_fixes E db_path s0 =
     try_approaches E (approaches db_path) (print (CN TestingApproachesBanner) s0)"

subsection \<open>\<open>main\<close>\<close>

text \<open>\<open>argv\<close> is \<open>sys.argv\<close>: the name of the script, then the arguments.\<close>

definition version_analysis_main ::
  "('w, 'c) env \<Rightarrow> string list \<Rightarrow> 'w st \<Rightarrow> (exc + unit) \<times> 'w st" where
  "version_analysis_main E argv s0 =
     (if length argv < 2 then (Inr (), print (VM UsageVersionAnalysis) s0)
      else
        (let db_path = argv ! 1;
             collection_name = (if length argv > 2 then Some (argv ! 2) else None);
             s1 = prints [VM TitleVersionAnalysis, VM RuleVersionAnalysis] s0
         in case check_chromadb_version_info E s1 of (version, s2) \<Rightarrow>
            if \<not> path_exists E db_path (world s2)
            then (Inr (), print (VM (ErrPathDoesNotExist db_path)) s2)
            else
              (case test_chromadb_connection_with_fixes E db_path s2 of (success, s3) \<Rightarrow>
               if \<not> success then
                 (case analyze_configuration_error E db_path collection_name s3 of
                    (problematic_configs, s4) \<Rightarrow>
                    (case (if truthy problematic_configs
                           then generate_migration_script E db_path (problems_of problematic_configs) s4
                           else (Inr (), s4)) of
                       (Inl e, s5) \<Rightarrow> (Inl e, s5)
                     | (Inr u, s5) \<Rightarrow>
                         (Inr (), prints (VM RecommendationsBanner # map (\<lambda>n. VM (VersionAdvice n)) [1, 2, 3, 4, 5]) s5)))
               else (Inr (), s3))))"


section \<open>\<^verbatim>\<open>chroma_diagnostic.py\<close>\<close>

text \<open>\<open>s.endswith(suffix)\<close>, \<open>sub in s\<close> and \<open>s.lower()\<close>.\<close>

definition endswith :: "string \<Rightarrow> string \<Rightarrow> bool" where
  "endswith s suffix = startswith (rev s) (rev suffix)"

fun str_contains :: "string \<Rightarrow> string \<Rightarrow> bool" where
  "str_contains sub [] = (sub = [])"
| "str_contains sub (c # cs) = (startswith (c # cs) sub \<or> str_contains sub cs)"

definition lower_char :: "char \<Rightarrow> char" where
  "lower_char c =
     (let n = (of_char c :: nat) in
      if (65 \<le> n \<and> n \<le> 90) \<or> (192 \<le> n \<and> n \<le> 222 \<and> n \<noteq> 215) then char_of (n + 32) else c)"

definition lower :: "string \<Rightarrow> string" where
  "lower s = map lower_char s"

definition os_listdir :: "('w, 'c) env \<Rightarrow> string \<Rightarrow> 'w st \<Rightarrow> (exc + string list) \<times> 'w st" where
  "os_listdir E path s = (listdir E path (world s), emit (ListDir path) s)"

subsection \<open>\<open>analyze_sqlite_structure\<close>\<close>

text \<open>The loop over the sampled rows (lines 105 to 114). An exception of \<open>json.loads\<close>
  other than \<open>JSONDecodeError\<close> leaves the loop for the handler of line 117.\<close>

fun print_sample_rows :: "('w, 'c) env \<Rightarrow> row list \<Rightarrow> 'w st \<Rightarrow> (exc + unit) \<times> 'w st" where
  "print_sample_rows E [] s = (Inr (), s)"
| "print_sample_rows E ((row_id, row_name, config_json) # rows) s =
     (let s1 = print (SS (SampleRow row_id row_name)) s in
      case config_json of
        None \<Rightarrow> print_sample_rows E rows s1
      | Some text \<Rightarrow>
          if text = [] then print_sample_rows E rows s1
          else (case json_loads E text s1 of
              (Loaded config, s2) \<Rightarrow> print_sample_rows E rows (print (SS (SampleConfiguration config)) s2)
            | (JSONDecodeError m, s2) \<Rightarrow>
                print_sample_rows E rows (prints [SS (SampleInvalidJson text), SS (SampleJsonError m)] s2)
            | (LoadsRaised e, s2) \<Rightarrow> (Inl e, s2)))"

text \<open>Lines 85 to 116, the body of the \<open>try\<close>: the three queries and what is printed
  from their results.\<close>

definition inspect_tables :: "('w, 'c) env \<Rightarrow> string \<Rightarrow> 'w st \<Rightarrow> (exc + unit) \<times> 'w st" where
  "inspect_tables E sqlite_path s0 =
     (case sqlite_tables E sqlite_path (world s0) of
        Inl e \<Rightarrow> (Inl e, emit (SqliteQuery sqlite_path) s0)
      | Inr tables \<Rightarrow>
          (let s1 = print (SS (Tables tables)) (emit (SqliteQuery sqlite_path) s0) in
           if ''collections'' \<in> set tables then
             (let s2 = emit (SqliteQuery sqlite_path) (print (SS CollectionsTableStructure) s1) in
              case sqlite_table_info E sqlite_path (world s2) of
                Inl e \<Rightarrow> (Inl e, s2)
              | Inr columns \<Rightarrow>
                  (let s3 = emit (SqliteQuery sqlite_path)
                              (prints (map (\<lambda>column. SS (ColumnEntry (fst column) (snd column))) columns) s2)
                   in case sqlite_sample E sqlite_path (world s3) of
                        Inl e \<Rightarrow> (Inl e, s3)
                      | Inr rows \<Rightarrow>
                          print_sample_rows E rows (print (SS (SampleCollectionData (length rows))) s3)))
           else (Inr (), s1)))"

definition analyze_sqlite_structure :: "('w, 'c) env \<Rightarrow> string \<Rightarrow> 'w st \<Rightarrow> 'w st" where
  "analyze_sqlite_structure E sqlite_path s0 =
     (case inspect_tables E sqlite_path s0 of
        (Inl e, s1) \<Rightarrow> print (SS (ErrSqlite (exc_msg e))) s1
      | (Inr u, s1) \<Rightarrow> s1)"

subsection \<open>\<open>analyze_chroma_database\<close>\<close>

text \<open>Lines 59 to 80: one attempt to open the client and to list the collections.\<close>

definition test_client_connection :: "('w, 'c) env \<Rightarrow> string \<Rightarrow> 'w st \<Rightarrow> bool \<times> 'w st" where
  "test_client_connection E db_path s0 =
     (case open_client E (PathOnly db_path) (print (CT TestingClientBanner) s0) of
        (Inl e, s1) \<Rightarrow> (False, prints [CT (ErrConnecting (exc_msg e)), CT (ErrorType (exc_kind e))] s1)
      | (Inr client, s1) \<Rightarrow>
          (case client_list_collections E client (print (CT ConnectedToDatabase) s1) of
             (Inl e, s2) \<Rightarrow>
               (False, prints [CT (ErrListingCollections (exc_msg e)), CT (ErrorType (exc_kind e))] s2)
           | (Inr collections, s2) \<Rightarrow>
               (True, prints (CT (ListedCollections (length collections)) #
                              map (\<lambda>c. CT (CollectionEntry (fst c) (snd c))) collections) s2)))"

text \<open>Lines 25 to 31: one line for each entry of the directory.\<close>

definition file_entry :: "('w, 'c) env \<Rightarrow> string \<Rightarrow> 'w \<Rightarrow> string \<Rightarrow> msg" where
  "file_entry E db_path w item =
     (let item_path = path_join db_path item in
      if path_isfile E item_path w then DF (FileEntry item (path_getsize E item_path w))
      else DF (DirectoryEntry item))"

text \<open>Lines 47 to 50: the first entry whose name ends in \<open>.sqlite3\<close>.\<close>

fun first_sqlite3 :: "string \<Rightarrow> string list \<Rightarrow> string option" where
  "first_sqlite3 db_path [] = None"
| "first_sqlite3 db_path (file # files) =
     (if endswith file ''.sqlite3'' then Some (path_join db_path file)
      else first_sqlite3 db_path files)"

text \<open>Lines 38 to 50. \<open>os.listdir\<close> is outside every \<open>try\<close>: its exception ends the
  function.\<close>

definition find_chroma_db ::
  "('w, 'c) env \<Rightarrow> string \<Rightarrow> 'w st \<Rightarrow> (exc + string option) \<times> 'w st" where
  "find_chroma_db E db_path s0 =
     (case first_existing E db_path [''chroma.sqlite3'', ''chroma.db'', ''database.db''] (world s0) of
        Some chroma_db_path \<Rightarrow> (Inr (Some chroma_db_path), s0)
      | None \<Rightarrow>
          (case os_listdir E db_path s0 of
             (Inl e, s1) \<Rightarrow> (Inl e, s1)
           | (Inr files, s1) \<Rightarrow> (Inr (first_sqlite3 db_path files), s1)))"

definition analyze_chroma_database ::
  "('w, 'c) env \<Rightarrow> string \<Rightarrow> 'w st \<Rightarrow> (exc + bool) \<times> 'w st" where
  "analyze_chroma_database E db_path s0 =
     (let s1 = prints [DF (AnalyzingAt db_path), DF (ClientVersionIs (chromadb_version E))] s0 in
      if \<not> path_exists E db_path (world s1)
      then (Inr False, print (DF (ErrDatabasePathMissing db_path)) s1)
      else
        (case os_listdir E db_path (print (DF DatabaseFiles) s1) of
           (Inl e, s2) \<Rightarrow> (Inl e, s2)
         | (Inr items, s2) \<Rightarrow>
             (case os_listdir E db_path (prints (map (file_entry E db_path (world s2)) items) s2) of
                (Inl e, s3) \<Rightarrow> (Inl e, s3)
              | (Inr names, s3) \<Rightarrow>
                  (let sqlite_files =
                         filter (\<lambda>f. endswith f ''.sqlite'' \<or> endswith f ''.db'' \<or>
                                      str_contains ''chroma'' (lower f)) names;
                       s4 = print (DF (PotentialSqliteFiles sqlite_files)) s3
                   in case find_chroma_db E db_path s4 of
                        (Inl e, s5) \<Rightarrow> (Inl e, s5)
                      | (Inr chroma_db_path, s5) \<Rightarrow>
                          (let s6 = (case chroma_db_path of
                                       Some found \<Rightarrow>
                                         analyze_sqlite_structure E found
                                           (print (DF (AnalyzingSqliteDatabase found)) s5)
                                     | None \<Rightarrow> print (DF WarnNoSqliteFile) s5)
                           in case test_client_connection E db_path s6 of
                                (success, s7) \<Rightarrow> (Inr success, s7))))))"

subsection \<open>\<open>test_database_migration\<close>\<close>

text \<open>The loop of line 138 over the numbered configurations. The handler of line 145
  prints the message of the exception.\<close>

fun try_configs :: "('w, 'c) env \<Rightarrow> client_args list \<Rightarrow> nat \<Rightarrow> 'w st \<Rightarrow> bool \<times> 'w st" where
  "try_configs E [] i s = (False, s)"
| "try_configs E (config # configs) i s =
     (let s1 = print (MT (TryingConfiguration (i + 1) config)) s in
      case connect_and_list E config s1 of
        (Inr collections, s2) \<Rightarrow> (True, print (MT (SuccessWith (length collections))) s2)
      | (Inl e, s2) \<Rightarrow> try_configs E configs (i + 1) (print (MT (Failed (exc_msg e))) s2))"

definition configs :: "string \<Rightarrow> client_args list" where
  "configs db_path = [PathOnly db_path, PathAllowResetKeyword db_path]"

text \<open>The backup of lines 126 to 129 is made before the \<open>try\<close> of line 131, so an
  exception of \<open>shutil.copytree\<close> ends the function. Nothing inside the \<open>try\<close> raises
  outside the inner handler, so the handler of line 148 never runs.\<close>

definition test_database_migration ::
  "('w, 'c) env \<Rightarrow> string \<Rightarrow> 'w st \<Rightarrow> (exc + bool) \<times> 'w st" where
  "test_database_migration E db_path s0 =
     (let s1 = print (MT TestingMigrationBanner) s0;
          backup_path = db_path @ ''_backup''
      in case (if \<not> path_exists E backup_path (world s1)
               then shutil_copytree E db_path backup_path (print (MT (CreatingBackupAt backup_path)) s1)
               else (Inr (), s1)) of
           (Inl e, s2) \<Rightarrow> (Inl e, s2)
         | (Inr u, s2) \<Rightarrow> (case try_configs E (configs db_path) 0 s2 of (ok, s3) \<Rightarrow> (Inr ok, s3)))"

subsection \<open>\<open>main\<close>\<close>

definition diagnostic_main ::
  "('w, 'c) env \<Rightarrow> string list \<Rightarrow> 'w st \<Rightarrow> (exc + unit) \<times> 'w st" where
  "diagnostic_main E argv s0 =
     (if length argv < 2 then (Inr (), prints [DM UsageDiagnostic, DM UsageExample] s0)
      else
        (let db_path = argv ! 1;
             s1 = prints [DM TitleDiagnostic, DM RuleDiagnostic] s0
         in case analyze_chroma_database E db_path s1 of
              (Inl e, s2) \<Rightarrow> (Inl e, s2)
            | (Inr success, s2) \<Rightarrow>
                (case (if \<not> success
                       then test_database_migration E db_path (print (DM AttemptingRepairBanner) s2)
                       else (Inr False, s2)) of
                   (Inl e, s3) \<Rightarrow> (Inl e, s3)
                 | (Inr ignored, s3) \<Rightarrow>
                     (Inr (),
                      prints (DM DiagnosticRecommendationsBanner #
                              (if success then [DM DatabaseCompatible]
                               else DM DatabaseIncompatible # map (\<lambda>n. DM (DiagnosticAdvice n)) [1, 2, 3, 4]))
                        s3))))"


section \<open>A small concrete world\<close>

text \<open>
  A file system and a storage file small enough to run the scripts on: the paths that
  exist, the rows of the \<open>collections\<close> table, and the text files written so far. The
  JSON decoder and the client library are given as tables of their answers.
\<close>

record disk =
  existing :: "string list"
  collections_table :: "row list"
  written :: "(string \<times> string) list"

definition missing_source :: "string \<Rightarrow> exc" where
  "missing_source path =
     Exc ''FileNotFoundError'' (''[Errno 2] No such file or directory: '' @ sq @ path @ sq)"

definition example_env ::
  "(string \<Rightarrow> loads_result) \<Rightarrow> (client_args \<Rightarrow> exc + collection list) \<Rightarrow> (disk, collection list) env" where
  "example_env decode client =
     \<lparr>chromadb_version = ''0.6.3'',
      path_exists = (\<lambda>p w. p \<in> set (existing w)),
      path_isfile = (\<lambda>p w. p \<in> set (existing w) \<and> endswith p ''.sqlite3''),
      path_getsize = (\<lambda>p w. 4096),
      listdir = (\<lambda>p w. if p \<in> set (existing w) then Inr [''chroma.sqlite3''] else Inl (missing_source p)),
      loads = decode,
      sqlite_tables = (\<lambda>p w. Inr [''collections'']),
      sqlite_table_info = (\<lambda>p w. Inr [(''id'', ''TEXT''), (''name'', ''TEXT''), (''configuration_json_str'', ''TEXT'')]),
      sqlite_sample = (\<lambda>p w. Inr (take 5 (collections_table w))),
      sqlite_collections = (\<lambda>p n w. Inr (case n of
                                             None \<Rightarrow> collections_table w
                                           | Some wanted \<Rightarrow> filter (\<lambda>r. fst (snd r) = wanted) (collections_table w))),
      persistent_client = (\<lambda>a w. (client a, w)),
      list_collections = (\<lambda>c w. (Inr c, w)),
      copytree = (\<lambda>src dst w. if src \<in> set (existing w)
                                then (Inr (), w\<lparr>existing := dst # existing w\<rparr>)
                                else (Inl (missing_source src), w)),
      write_text = (\<lambda>p t w. (Inr (), w\<lparr>existing := p # existing w, written := (p, t) # written w\<rparr>))\<rparr>"

definition example_loads :: "string \<Rightarrow> loads_result" where
  "example_loads text =
     (if text = ''{\"hnsw\": {}}'' then Loaded (JObj [(''hnsw'', JObj [])])
      else if text = ''{\"hnsw\": {}, \"description\": \"it's\"}''
        then Loaded (JObj [(''hnsw'', JObj []), (''description'', JStr ''it's'')])
      else if text = ''[]'' then Loaded (JArr [])
      else JSONDecodeError ''Expecting value: line 1 column 1 (char 0)'')"

definition refusing_client :: "string \<Rightarrow> client_args \<Rightarrow> exc + collection list" where
  "refusing_client kind a = Inl (Exc kind ''_type'')"

definition start :: "disk st" where
  "start =
     \<lparr>world = \<lparr>existing = [''/data/chroma'', ''/data/chroma/chroma.sqlite3''],
                collections_table = [(''abc'', ''docs'', None)],
                written = []\<rparr>,
      trace = []\<rparr>"


definition second_try_client :: "client_args \<Rightarrow> exc + collection list" where
  "second_try_client a =
     (case a of
        PathOnly p \<Rightarrow> Inl (Exc ''KeyError'' ''_type'')
      | PathWithSettings p \<Rightarrow> Inr [(''docs'', ''abc'')]
      | PathAllowResetKeyword p \<Rightarrow> Inl (Exc ''TypeError'' ''unexpected keyword argument allow_reset''))"

definition quoted_config :: pydict where
  "quoted_config = [(''hnsw'', JObj []), (''description'', JStr ''it's'')]"

text \<open>A configuration whose description holds a quote, a semicolon and the words of an
  SQL statement.\<close>

definition injecting_config :: pydict where
  "injecting_config =
     [(''hnsw'', JObj []), (''description'', JStr ''x'; UPDATE collections SET name = 'y'')]"

section \<open>Reading a trace and a script\<close>

text \<open>The arguments of the calls to \<open>PersistentClient\<close> in a trace, in order.\<close>

definition opens :: "event list \<Rightarrow> client_args list" where
  "opens tr = concat (map (\<lambda>e. case e of ClientOpen a \<Rightarrow> [a] | _ \<Rightarrow> []) tr)"

text \<open>
  What the specification says of a tester whose variants all fail: each variant is
  tried in turn, and \<open>test_chromadb_connection_with_fixes\<close> prints the kind and the
  message of each exception. The result is the state after the last variant, or \<open>None\<close>
  when one of the variants succeeds.
\<close>

fun after_failures :: "('w, 'c) env \<Rightarrow> (string \<times> client_args) list \<Rightarrow> 'w st \<Rightarrow> 'w st option" where
  "after_failures E [] s = Some s"
| "after_failures E ((name, a) # rest) s =
     (case connect_and_list E a (print (CN (Testing name)) s) of
        (Inl e, s1) \<Rightarrow> after_failures E rest (print (CN (FailedWith (exc_kind e) (exc_msg e))) s1)
      | (Inr collections, s1) \<Rightarrow> None)"

text \<open>The same for \<open>test_database_migration\<close>, which prints the message only.\<close>

fun after_config_failures :: "('w, 'c) env \<Rightarrow> client_args list \<Rightarrow> nat \<Rightarrow> 'w st \<Rightarrow> 'w st option" where
  "after_config_failures E [] i s = Some s"
| "after_config_failures E (a # rest) i s =
     (case connect_and_list E a (print (MT (TryingConfiguration (i + 1) a)) s) of
        (Inl e, s1) \<Rightarrow> after_config_failures E rest (i + 1) (print (MT (Failed (exc_msg e))) s1)
      | (Inr collections, s1) \<Rightarrow> None)"

text \<open>
  How an SQL shell reads a string literal, from the character after the opening quote:
  two quotes in a row stand for one quote, a single quote ends the literal. The result is
  the value of the literal and the text after it, or \<open>None\<close> when the literal does not
  end.
\<close>

fun sql_literal :: "string \<Rightarrow> (string \<times> string) option" where
  "sql_literal [] = None"
| "sql_literal [c] = (if c = CHR 0x27 then Some ([], []) else None)"
| "sql_literal (c # d # cs) =
     (if c \<noteq> CHR 0x27 then map_option (\<lambda>(v, rest). (c # v, rest)) (sql_literal (d # cs))
      else if d = CHR 0x27 then map_option (\<lambda>(v, rest). (c # v, rest)) (sql_literal cs)
      else Some ([], d # cs))"

text \<open>The statement of the scenario with a \<open>NULL\<close> configuration, as the specification
  writes it: on one line, the JSON without spaces.\<close>

definition claimed_statement :: string where
  "claimed_statement =
     ''UPDATE collections SET configuration_json_str = '' @ sq @
     ''{\"_type\":\"CollectionConfigurationInternal\",\"hnsw\":{},\"embedding_function\":{}}'' @ sq @
     '' WHERE id = '' @ sq @ ''abc'' @ sq @ '';''"

section \<open>Dictionaries and the loop over the rows\<close>


lemma dict_contains_setitem: "dict_contains k (dict_setitem k v d)"
  by (induction d) (auto simp: dict_contains_def)

lemma map_of_setitem: "map_of (dict_setitem k v d) = (map_of d)(k \<mapsto> v)"
  by (induction d) (auto simp: fun_eq_iff)

lemma add_missing_type_contains: "dict_contains type_key (add_missing_type c)"
  by (simp add: add_missing_type_def dict_contains_setitem)

lemma default_config_contains: "dict_contains type_key default_config"
  by (simp add: default_config_def dict_contains_def)

lemma corrected_config_contains: "dict_contains type_key (corrected_config c)"
  by (cases c) (simp_all add: corrected_config_def add_missing_type_contains default_config_contains)






section \<open>The repair of a configuration without \<open>_type\<close>\<close>




section \<open>A configuration that cannot be decoded, or is absent\<close>




section \<open>Correcting twice\<close>

text \<open>
  C6. The dictionary that is serialized for an entry has the key \<open>_type\<close>; correcting it
  again gives the same dictionary, and a row whose configuration decodes to it is not a
  problem any more: the loop body leaves the list as it is.
\<close>

theorem correction_is_idempotent:
  "dict_contains ''_type'' (corrected_config c)
   \<and> corrected_config (Some (corrected_config c)) = corrected_config c
   \<and> add_missing_type (add_missing_type m) = add_missing_type m
   \<and> (blob \<noteq> [] \<and> loads E blob = Loaded (JObj (corrected_config c)) \<longrightarrow>
        fst (analyze_row E (cid, name, Some blob) pcs s) = Inr pcs)"
proof -
  have has: "dict_contains ''_type'' (corrected_config c)"
    using corrected_config_contains [of c] by (simp add: type_key_def)
  have again: "corrected_config (Some (corrected_config c)) = corrected_config c"
    using corrected_config_contains [of c] by (simp add: corrected_config_def add_missing_type_def)
  have twice: "add_missing_type (add_missing_type m) = add_missing_type m"
    using add_missing_type_contains [of m] by (simp add: add_missing_type_def)
  have valid: "fst (analyze_row E (cid, name, Some blob) pcs s) = Inr pcs"
    if "blob \<noteq> []" and "loads E blob = Loaded (JObj (corrected_config c))"
    using that corrected_config_contains [of c]
    by (auto simp: analyze_row_def json_loads_def Let_def dict_contains_def split: option.splits)
  from has again twice valid show ?thesis by blast
qed

theorem correction_is_idempotent_witness:
  "corrected_config (Some (corrected_config (Some [(''hnsw'', JObj [])]))) =
     [(''hnsw'', JObj []), (''_type'', JStr ''CollectionConfigurationInternal'')]
   \<and> corrected_config (Some [(''hnsw'', JObj [])]) =
     [(''hnsw'', JObj []), (''_type'', JStr ''CollectionConfigurationInternal'')]"
proof -
  have "corrected_config (Some [(''hnsw'', JObj [])]) =
     [(''hnsw'', JObj []), (''_type'', JStr ''CollectionConfigurationInternal'')]"
    by code_simp
  with correction_is_idempotent
         [of "Some [(''hnsw'', JObj [])]" "[]" "''{}''"
             "example_env example_loads (refusing_client ''KeyError'')" "''abc''" "''docs''" "[]" start,
          THEN conjunct2, THEN conjunct1]
  show ?thesis by simp
qed


section \<open>An empty configuration text\<close>




section \<open>No problems, no script\<close>

text \<open>
  C9. With an empty list of problems \<open>generate_migration_script\<close> prints that no issues
  were found and returns: the world is unchanged and the trace gains that line only, so
  no file is written.
\<close>

theorem no_problems_no_file:
  "generate_migration_script E db_path [] s =
     (Inr (), s\<lparr>trace := trace s @ [Print (MG NoIssuesFound)]\<rparr>)"
  by (simp add: generate_migration_script_def print_def emit_def)

theorem no_problems_no_file_witness:
  "generate_migration_script (example_env example_loads (refusing_client ''KeyError'')) ''/data/chroma'' [] start =
     (Inr (), start\<lparr>trace := [Print (MG NoIssuesFound)]\<rparr>)
   \<and> written (world (snd (generate_migration_script (example_env example_loads (refusing_client ''KeyError''))
         ''/data/chroma'' [(''abc'', ''docs'', None)] start))) \<noteq> []"
proof -
  have contrast: "written (world (snd (generate_migration_script (example_env example_loads (refusing_client ''KeyError''))
         ''/data/chroma'' [(''abc'', ''docs'', None)] start))) \<noteq> []"
    by code_simp
  have "trace start = []" by (simp add: start_def)
  with no_problems_no_file [of "example_env example_loads (refusing_client ''KeyError'')" "''/data/chroma''" start] contrast
  show ?thesis by simp
qed


section \<open>The text of the migration script\<close>

lemma dumps_default_config:
  "dumps (JObj default_config) =
     ''{\"_type\": \"CollectionConfigurationInternal\", \"hnsw\": {}, \"embedding_function\": {}}''"
  by code_simp

lemma add_statements_append: "add_statements ps acc = acc @ concat (map fix_statement ps)"
  by (induction ps arbitrary: acc) simp_all

lemma fix_statement_eq:
  "fix_statement (cid, name, cfg) =
     (case cfg of Some c \<Rightarrow> ''-- Fix collection: '' | None \<Rightarrow> ''-- Fix collection with default config: '') @
     name @ nl @
     ''UPDATE collections '' @ nl @
     ''SET configuration_json_str = '' @ sq @ dumps (JObj (corrected_config cfg)) @ sq @ nl @
     ''WHERE id = '' @ sq @ cid @ sq @ '';'' @ nl @ nl"
  by (cases cfg) (simp_all add: fix_statement_def corrected_config_def)

lemma trace_print: "trace (print m s) = trace s @ [Print m]"
  by (simp add: print_def emit_def)

lemma world_print: "world (print m s) = world s"
  by (simp add: print_def emit_def)

lemma trace_prints: "trace (prints ms s) = trace s @ map Print ms"
  by (induction ms arbitrary: s) (simp_all add: prints_def trace_print)

lemma world_prints: "world (prints ms s) = world s"
  by (induction ms arbitrary: s) (simp_all add: prints_def world_print)

lemma first_written:
  "write_file E path text s = (r, s') \<Longrightarrow> trace s' = trace s @ [WriteFile path text]"
  by (auto simp: write_file_def emit_def split: prod.splits)

lemma startswith_self: "startswith (x @ b) x"
  by (induction x) simp_all

lemma str_contains_here: "str_contains sub (sub @ b)"
proof (cases "sub @ b")
  case Nil
  then show ?thesis by simp
next
  case (Cons c cs)
  with startswith_self [of sub b] have "startswith (c # cs) sub" by simp
  with Cons show ?thesis by simp
qed

lemma str_contains_append: "str_contains sub (a @ sub @ b)"
  by (induction a) (simp_all add: str_contains_here)


text \<open>
  C3, as the code has it. For a table with the one row \<open>('abc', 'docs', NULL)\<close> the list
  of problems is that row with \<open>None\<close>, and the script that is written contains the
  statement for it on three lines, with the JSON as \<open>json.dumps\<close> writes it by default:
  a space after each colon and each comma.
\<close>

theorem null_configuration_scenario:
  assumes "first_existing E db_path [''chroma.sqlite3'', ''chroma.db''] (world s) = Some sqlite_path"
    and "sqlite_collections E sqlite_path None (world s) = Inr [(''abc'', ''docs'', None)]"
  shows "fst (analyze_configuration_error E db_path None s) = Problems [(''abc'', ''docs'', None)]
       \<and> migration_script_text db_path [(''abc'', ''docs'', None)] =
           script_header db_path @
           ''-- Fix collection with default config: docs'' @ nl @
           ''UPDATE collections '' @ nl @
           ''SET configuration_json_str = '' @ sq @
             ''{\"_type\": \"CollectionConfigurationInternal\", \"hnsw\": {}, \"embedding_function\": {}}'' @ sq @ nl @
           ''WHERE id = '' @ sq @ ''abc'' @ sq @ '';'' @ nl @ nl @
           script_footer
       \<and> str_contains
            (''UPDATE collections '' @ nl @
             ''SET configuration_json_str = '' @ sq @
               ''{\"_type\": \"CollectionConfigurationInternal\", \"hnsw\": {}, \"embedding_function\": {}}'' @ sq @ nl @
             ''WHERE id = '' @ sq @ ''abc'' @ sq @ '';'')
            (migration_script_text db_path [(''abc'', ''docs'', None)])
       \<and> (\<exists>r s'. generate_migration_script E db_path [(''abc'', ''docs'', None)] s = (r, s') \<and>
              WriteFile (path_join (path_dirname db_path) ''chroma_migration.sql'')
                (migration_script_text db_path [(''abc'', ''docs'', None)]) \<in> set (trace s'))"
proof -
  let ?update = "''UPDATE collections '' @ nl @
             ''SET configuration_json_str = '' @ sq @
               ''{\"_type\": \"CollectionConfigurationInternal\", \"hnsw\": {}, \"embedding_function\": {}}'' @ sq @ nl @
             ''WHERE id = '' @ sq @ ''abc'' @ sq @ '';''"
  have found: "fst (analyze_configuration_error E db_path None s) = Problems [(''abc'', ''docs'', None)]"
    using assms
    by (simp add: analyze_configuration_error_def select_collections_def analyze_row_def Let_def
        world_print del: first_existing.simps)
  have script: "migration_script_text db_path [(''abc'', ''docs'', None)] =
      (script_header db_path @ ''-- Fix collection with default config: docs'' @ nl) @ ?update @ (nl @ nl @ script_footer)"
    by (simp add: migration_script_text_def fix_statement_def dumps_default_config del: dumps.simps)
  have inside: "str_contains ?update (migration_script_text db_path [(''abc'', ''docs'', None)])"
    unfolding script by (rule str_contains_append)
  obtain r s' where
    w: "write_file E (path_join (path_dirname db_path) ''chroma_migration.sql'')
          (migration_script_text db_path [(''abc'', ''docs'', None)]) (print (MG GeneratingBanner) s) = (r, s')"
    by (cases "write_file E (path_join (path_dirname db_path) ''chroma_migration.sql'')
          (migration_script_text db_path [(''abc'', ''docs'', None)]) (print (MG GeneratingBanner) s)")
  have written: "\<exists>r s'. generate_migration_script E db_path [(''abc'', ''docs'', None)] s = (r, s') \<and>
              WriteFile (path_join (path_dirname db_path) ''chroma_migration.sql'')
                (migration_script_text db_path [(''abc'', ''docs'', None)]) \<in> set (trace s')"
    using w first_written [OF w]
    by (cases r) (auto simp: generate_migration_script_def Let_def trace_prints)
  from found script inside written show ?thesis by simp
qed

theorem null_configuration_scenario_witness:
  "fst (analyze_configuration_error (example_env example_loads (refusing_client ''KeyError'')) ''/data/chroma'' None start) =
     Problems [(''abc'', ''docs'', None)]
   \<and> str_contains
        (''UPDATE collections '' @ nl @
         ''SET configuration_json_str = '' @ sq @
           ''{\"_type\": \"CollectionConfigurationInternal\", \"hnsw\": {}, \"embedding_function\": {}}'' @ sq @ nl @
         ''WHERE id = '' @ sq @ ''abc'' @ sq @ '';'')
        (migration_script_text ''/data/chroma'' [(''abc'', ''docs'', None)])"
proof -
  have h1: "first_existing (example_env example_loads (refusing_client ''KeyError'')) ''/data/chroma''
              [''chroma.sqlite3'', ''chroma.db''] (world start) = Some ''/data/chroma/chroma.sqlite3''"
    by code_simp
  have h2: "sqlite_collections (example_env example_loads (refusing_client ''KeyError''))
              ''/data/chroma/chroma.sqlite3'' None (world start) = Inr [(''abc'', ''docs'', None)]"
    by code_simp
  from null_configuration_scenario [OF h1 h2] show ?thesis by blast
qed


text \<open>The script of that scenario contains neither the one-line statement nor the JSON
  without spaces.\<close>

theorem compact_statement_counterexample:
  "fst (analyze_configuration_error (example_env example_loads (refusing_client ''KeyError'')) ''/data/chroma'' None start) =
     Problems [(''abc'', ''docs'', None)]
   \<and> \<not> str_contains claimed_statement (migration_script_text ''/data/chroma'' [(''abc'', ''docs'', None)])
   \<and> \<not> str_contains ''{\"_type\":\"CollectionConfigurationInternal\",\"hnsw\":{},\"embedding_function\":{}}''
          (migration_script_text ''/data/chroma'' [(''abc'', ''docs'', None)])"
  by code_simp


section \<open>A quote in the serialized configuration\<close>

text \<open>
  C5. The configuration \<open>{"hnsw": {}, "description": "it's"}\<close> lacks \<open>_type\<close>, so it is
  corrected and serialized. The quote of \<open>it's\<close> is written into the SQL literal as it
  is: the literal an SQL shell reads ends after \<open>it\<close>, and is not the serialized
  configuration.
\<close>

theorem quote_in_json_is_not_escaped:
  "fst (analyze_row (example_env example_loads (refusing_client ''KeyError''))
         (''abc'', ''docs'', Some ''{\"hnsw\": {}, \"description\": \"it's\"}'') [] start) =
     Inr [(''abc'', ''docs'', Some (quoted_config @ [(''_type'', JStr ''CollectionConfigurationInternal'')]))]
   \<and> fix_statement (''abc'', ''docs'', Some (quoted_config @ [(''_type'', JStr ''CollectionConfigurationInternal'')])) =
       ''-- Fix collection: docs'' @ nl @
       ''UPDATE collections '' @ nl @
       ''SET configuration_json_str = '' @ sq @
         ''{\"hnsw\": {}, \"description\": \"it's\", \"_type\": \"CollectionConfigurationInternal\"}'' @ sq @ nl @
       ''WHERE id = '' @ sq @ ''abc'' @ sq @ '';'' @ nl @ nl
   \<and> dumps (JObj (quoted_config @ [(''_type'', JStr ''CollectionConfigurationInternal'')])) =
       ''{\"hnsw\": {}, \"description\": \"it's\", \"_type\": \"CollectionConfigurationInternal\"}''
   \<and> sql_literal
        (''{\"hnsw\": {}, \"description\": \"it's\", \"_type\": \"CollectionConfigurationInternal\"}'' @ sq @ nl @
         ''WHERE id = '' @ sq @ ''abc'' @ sq @ '';'' @ nl @ nl) =
       Some (''{\"hnsw\": {}, \"description\": \"it'',
             ''s\", \"_type\": \"CollectionConfigurationInternal\"}'' @ sq @ nl @
             ''WHERE id = '' @ sq @ ''abc'' @ sq @ '';'' @ nl @ nl)"
  by code_simp


text \<open>
  C4. The script has one block for each entry, but not one \<open>UPDATE\<close> statement for each
  record whatever the record holds: the texts are written between the quotes as they
  are. For the one record with the configuration
  \<open>{"hnsw": {}, "description": "x'; UPDATE collections SET name = 'y"}\<close> the literal of
  the \<open>SET\<close> clause ends after \<open>x\<close>, and what follows it is a semicolon and a second
  \<open>UPDATE\<close> statement. For the one record with the identifier \<open>x' OR '1'='1\<close> the
  \<open>WHERE\<close> clause compares \<open>id\<close> with \<open>x\<close> and goes on with \<open>OR '1'='1'\<close>.
\<close>

theorem one_record_gives_a_second_update:
  "fst (analyze_row (example_env (\<lambda>text. Loaded (JObj injecting_config)) (refusing_client ''KeyError''))
         (''abc'', ''docs'', Some ''{\"hnsw\": {}, \"description\": \"x'; UPDATE collections SET name = 'y\"}'') [] start) =
     Inr [(''abc'', ''docs'', Some (injecting_config @ [(''_type'', JStr ''CollectionConfigurationInternal'')]))]
   \<and> migration_script_text ''/data/chroma''
       [(''abc'', ''docs'', Some (injecting_config @ [(''_type'', JStr ''CollectionConfigurationInternal'')]))] =
       ''-- ChromaDB Configuration Migration Script'' @ nl @
       ''-- Generated for database: /data/chroma'' @ nl @
       ''-- Fixes missing '' @ sq @ ''_type'' @ sq @ '' fields in collection configurations'' @ nl @ nl @
       ''BEGIN TRANSACTION;'' @ nl @ nl @
       ''-- Fix collection: docs'' @ nl @
       ''UPDATE collections '' @ nl @
       ''SET configuration_json_str = '' @ sq @
         ''{\"hnsw\": {}, \"description\": \"x'; UPDATE collections SET name = 'y\", \"_type\": \"CollectionConfigurationInternal\"}'' @
         sq @ nl @
       ''WHERE id = '' @ sq @ ''abc'' @ sq @ '';'' @ nl @ nl @
       nl @ ''COMMIT;'' @ nl @ nl @
       ''-- Verify the changes'' @ nl @
       ''SELECT id, name, configuration_json_str FROM collections;'' @ nl
   \<and> sql_literal
        (''{\"hnsw\": {}, \"description\": \"x'; UPDATE collections SET name = 'y\", \"_type\": \"CollectionConfigurationInternal\"}'' @
         sq @ nl @ ''WHERE id = '' @ sq @ ''abc'' @ sq @ '';'' @ nl @ nl) =
       Some (''{\"hnsw\": {}, \"description\": \"x'',
             ''; UPDATE collections SET name = 'y\", \"_type\": \"CollectionConfigurationInternal\"}'' @
             sq @ nl @ ''WHERE id = '' @ sq @ ''abc'' @ sq @ '';'' @ nl @ nl)
   \<and> fst (analyze_row (example_env example_loads (refusing_client ''KeyError''))
         (''x' OR '1'='1'', ''docs'', None) [] start) =
     Inr [(''x' OR '1'='1'', ''docs'', None)]
   \<and> fix_statement (''x' OR '1'='1'', ''docs'', None) =
       ''-- Fix collection with default config: docs'' @ nl @
       ''UPDATE collections '' @ nl @
       ''SET configuration_json_str = '' @ sq @
         ''{\"_type\": \"CollectionConfigurationInternal\", \"hnsw\": {}, \"embedding_function\": {}}'' @ sq @ nl @
       ''WHERE id = '' @ sq @ ''x'' @ sq @ '' OR '' @ sq @ ''1'' @ sq @ ''='' @ sq @ ''1'' @ sq @ '';'' @ nl @ nl
   \<and> sql_literal (''x' OR '1'='1'' @ sq @ '';'' @ nl @ nl) =
       Some (''x'', '' OR '1'='1'' @ sq @ '';'' @ nl @ nl)"
  by code_simp


section \<open>The connectivity testers\<close>

lemma opens_append: "opens (a @ b) = opens a @ opens b"
  by (simp add: opens_def)

lemma opens_Print: "opens (map Print ms) = []"
  by (induction ms) (simp_all add: opens_def)

lemma connect_and_list_opens:
  "connect_and_list E a s = (r, s') \<Longrightarrow> opens (trace s') = opens (trace s) @ [a]"
  by (auto simp: connect_and_list_def open_client_def client_list_collections_def emit_def opens_def
      split: prod.splits sum.splits)

lemma try_approaches_False:
  "try_approaches E as s = (False, s') \<longleftrightarrow> after_failures E as s = Some s'"
  by (induction E as s rule: try_approaches.induct) (auto simp: Let_def split: prod.splits sum.splits)

lemma try_approaches_skip:
  "after_failures E pre s = Some s1 \<Longrightarrow> try_approaches E (pre @ rest) s = try_approaches E rest s1"
  by (induction E pre s rule: after_failures.induct) (auto simp: Let_def split: prod.splits sum.splits)

lemma try_approaches_True:
  "try_approaches E as s = (True, s') \<Longrightarrow>
     \<exists>pre name a post s1 cols s2.
       as = pre @ (name, a) # post \<and> after_failures E pre s = Some s1 \<and>
       connect_and_list E a (print (CN (Testing name)) s1) = (Inr cols, s2) \<and>
       s' = prints (CN (SuccessFound (length cols)) # map (\<lambda>c. CN (CollectionName (fst c))) cols) s2"
proof (induction E as s rule: try_approaches.induct)
  case (1 E s)
  then show ?case by simp
next
  case (2 E name client_func approaches s)
  show ?case
  proof (cases "connect_and_list E client_func (print (CN (Testing name)) s)")
    case (Pair r s2)
    show ?thesis
    proof (cases r)
      case (Inr cols)
      with Pair "2.prems" have
        "s' = prints (CN (SuccessFound (length cols)) # map (\<lambda>c. CN (CollectionName (fst c))) cols) s2"
        by (simp add: Let_def)
      with Pair Inr have
        "(name, client_func) # approaches = [] @ (name, client_func) # approaches \<and>
         after_failures E [] s = Some s \<and>
         connect_and_list E client_func (print (CN (Testing name)) s) = (Inr cols, s2) \<and>
         s' = prints (CN (SuccessFound (length cols)) # map (\<lambda>c. CN (CollectionName (fst c))) cols) s2"
        by simp
      then show ?thesis by blast
    next
      case (Inl e)
      let ?s3 = "print (CN (FailedWith (exc_kind e) (exc_msg e))) s2"
      from Pair Inl "2.prems" have rest: "try_approaches E approaches ?s3 = (True, s')"
        by (simp add: Let_def)
      from "2.IH" [OF refl Pair [symmetric] Inl rest] obtain pre n a post s1 cols t where
        split: "approaches = pre @ (n, a) # post" and
        fails: "after_failures E pre ?s3 = Some s1" and
        ok: "connect_and_list E a (print (CN (Testing n)) s1) = (Inr cols, t)" and
        final: "s' = prints (CN (SuccessFound (length cols)) # map (\<lambda>c. CN (CollectionName (fst c))) cols) t"
        by blast
      from fails Pair Inl have "after_failures E ((name, client_func) # pre) s = Some s1"
        by simp
      with split ok final have
        "(name, client_func) # approaches = ((name, client_func) # pre) @ (n, a) # post \<and>
         after_failures E ((name, client_func) # pre) s = Some s1 \<and>
         connect_and_list E a (print (CN (Testing n)) s1) = (Inr cols, t) \<and>
         s' = prints (CN (SuccessFound (length cols)) # map (\<lambda>c. CN (CollectionName (fst c))) cols) t"
        by simp
      then show ?thesis by blast
    qed
  qed
qed

lemma after_failures_opens:
  "after_failures E as s = Some s' \<Longrightarrow> opens (trace s') = opens (trace s) @ map snd as"
proof (induction E as s rule: after_failures.induct)
  case (1 E s)
  then show ?case by simp
next
  case (2 E name a rest s)
  from "2.prems" obtain e s1 where
    c: "connect_and_list E a (print (CN (Testing name)) s) = (Inl e, s1)" and
    r: "after_failures E rest (print (CN (FailedWith (exc_kind e) (exc_msg e))) s1) = Some s'"
    by (auto split: prod.splits sum.splits)
  from connect_and_list_opens [OF c] have "opens (trace s1) = opens (trace s) @ [a]"
    by (simp add: trace_print opens_append opens_def)
  with "2.IH" [OF c [symmetric] refl r] show ?case
    by (simp add: trace_print opens_append opens_def)
qed

lemma try_configs_False:
  "try_configs E cs i s = (False, s') \<longleftrightarrow> after_config_failures E cs i s = Some s'"
  by (induction E cs i s rule: try_configs.induct) (auto simp: Let_def split: prod.splits sum.splits)

lemma try_configs_skip:
  "after_config_failures E pre i s = Some s1 \<Longrightarrow>
     try_configs E (pre @ rest) i s = try_configs E rest (i + length pre) s1"
  by (induction E pre i s rule: after_config_failures.induct) (auto simp: Let_def split: prod.splits sum.splits)

lemma try_configs_True:
  "try_configs E cs i s = (True, s') \<Longrightarrow>
     \<exists>pre a post s1 cols s2.
       cs = pre @ a # post \<and> after_config_failures E pre i s = Some s1 \<and>
       connect_and_list E a (print (MT (TryingConfiguration (i + length pre + 1) a)) s1) = (Inr cols, s2) \<and>
       s' = print (MT (SuccessWith (length cols))) s2"
proof (induction E cs i s rule: try_configs.induct)
  case (1 E i s)
  then show ?case by simp
next
  case (2 E config configs i s)
  show ?case
  proof (cases "connect_and_list E config (print (MT (TryingConfiguration (i + 1) config)) s)")
    case (Pair r s2)
    show ?thesis
    proof (cases r)
      case (Inr cols)
      with Pair "2.prems" have "s' = print (MT (SuccessWith (length cols))) s2"
        by (simp add: Let_def)
      with Pair Inr have
        "config # configs = [] @ config # configs \<and>
         after_config_failures E [] i s = Some s \<and>
         connect_and_list E config (print (MT (TryingConfiguration (i + length ([] :: client_args list) + 1) config)) s) =
           (Inr cols, s2) \<and>
         s' = print (MT (SuccessWith (length cols))) s2"
        by simp
      then show ?thesis by blast
    next
      case (Inl e)
      let ?s3 = "print (MT (Failed (exc_msg e))) s2"
      from Pair Inl "2.prems" have rest: "try_configs E configs (i + 1) ?s3 = (True, s')"
        by (simp add: Let_def)
      from "2.IH" [OF refl Pair [symmetric] Inl rest] obtain pre a post s1 cols t where
        split: "configs = pre @ a # post" and
        fails: "after_config_failures E pre (i + 1) ?s3 = Some s1" and
        ok: "connect_and_list E a (print (MT (TryingConfiguration (i + 1 + length pre + 1) a)) s1) = (Inr cols, t)" and
        final: "s' = print (MT (SuccessWith (length cols))) t"
        by blast
      from fails Pair Inl have "after_config_failures E (config # pre) i s = Some s1"
        by simp
      with split ok final have
        "config # configs = (config # pre) @ a # post \<and>
         after_config_failures E (config # pre) i s = Some s1 \<and>
         connect_and_list E a (print (MT (TryingConfiguration (i + length (config # pre) + 1) a)) s1) = (Inr cols, t) \<and>
         s' = print (MT (SuccessWith (length cols))) t"
        by (simp add: add.commute add.left_commute)
      then show ?thesis by blast
    qed
  qed
qed

lemma after_config_failures_opens:
  "after_config_failures E cs i s = Some s' \<Longrightarrow> opens (trace s') = opens (trace s) @ cs"
proof (induction E cs i s rule: after_config_failures.induct)
  case (1 E i s)
  then show ?case by simp
next
  case (2 E a rest i s)
  from "2.prems" obtain e s1 where
    c: "connect_and_list E a (print (MT (TryingConfiguration (i + 1) a)) s) = (Inl e, s1)" and
    r: "after_config_failures E rest (i + 1) (print (MT (Failed (exc_msg e))) s1) = Some s'"
    by (auto split: prod.splits sum.splits)
  from connect_and_list_opens [OF c] have "opens (trace s1) = opens (trace s) @ [a]"
    by (simp add: trace_print opens_append opens_def)
  with "2.IH" [OF c [symmetric] refl r] show ?case
    by (simp add: trace_print opens_append opens_def)
qed


text \<open>
  C7, as the code has it. Each of the two loops returns success exactly when the list of
  variants splits into variants that all fail, a variant for which opening the client and
  listing the collections succeed, and the rest; the clients opened are those of the
  failed variants and of the successful one, so no later variant is tried. It returns
  failure exactly when all variants fail, and then every variant was tried. For each
  failed variant \<open>test_chromadb_connection_with_fixes\<close> prints the kind and the message of
  the exception, and \<open>test_database_migration\<close> prints the message.
\<close>

theorem testers_stop_at_first_success:
  "(try_approaches E as s = (True, s') \<longleftrightarrow>
      (\<exists>pre name a post s1 cols s2.
         as = pre @ (name, a) # post \<and> after_failures E pre s = Some s1 \<and>
         connect_and_list E a (print (CN (Testing name)) s1) = (Inr cols, s2) \<and>
         s' = prints (CN (SuccessFound (length cols)) # map (\<lambda>c. CN (CollectionName (fst c))) cols) s2 \<and>
         opens (trace s') = opens (trace s) @ map snd pre @ [a]))
   \<and> (try_approaches E as s = (False, s') \<longleftrightarrow> after_failures E as s = Some s')
   \<and> (try_approaches E as s = (False, s') \<longrightarrow> opens (trace s') = opens (trace s) @ map snd as)
   \<and> (try_configs E cs i t = (True, t') \<longleftrightarrow>
      (\<exists>pre a post t1 cols t2.
         cs = pre @ a # post \<and> after_config_failures E pre i t = Some t1 \<and>
         connect_and_list E a (print (MT (TryingConfiguration (i + length pre + 1) a)) t1) = (Inr cols, t2) \<and>
         t' = print (MT (SuccessWith (length cols))) t2 \<and>
         opens (trace t') = opens (trace t) @ pre @ [a]))
   \<and> (try_configs E cs i t = (False, t') \<longleftrightarrow> after_config_failures E cs i t = Some t')
   \<and> (try_configs E cs i t = (False, t') \<longrightarrow> opens (trace t') = opens (trace t) @ cs)"
proof -
  have a1: "\<exists>pre name a post s1 cols s2.
         as = pre @ (name, a) # post \<and> after_failures E pre s = Some s1 \<and>
         connect_and_list E a (print (CN (Testing name)) s1) = (Inr cols, s2) \<and>
         s' = prints (CN (SuccessFound (length cols)) # map (\<lambda>c. CN (CollectionName (fst c))) cols) s2 \<and>
         opens (trace s') = opens (trace s) @ map snd pre @ [a]"
    if run: "try_approaches E as s = (True, s')"
  proof -
    from try_approaches_True [OF run] obtain pre name a post s1 cols s2 where
      split: "as = pre @ (name, a) # post" and fails: "after_failures E pre s = Some s1" and
      ok: "connect_and_list E a (print (CN (Testing name)) s1) = (Inr cols, s2)" and
      final: "s' = prints (CN (SuccessFound (length cols)) # map (\<lambda>c. CN (CollectionName (fst c))) cols) s2"
      by blast
    from connect_and_list_opens [OF ok] after_failures_opens [OF fails]
    have "opens (trace s2) = opens (trace s) @ map snd pre @ [a]"
      by (simp add: trace_print opens_append opens_def)
    with final have "opens (trace s') = opens (trace s) @ map snd pre @ [a]"
      by (simp only: trace_prints opens_append opens_Print append_Nil2)
    with split fails ok final show ?thesis by blast
  qed
  have a2: "try_approaches E as s = (True, s')"
    if "\<exists>pre name a post s1 cols s2.
         as = pre @ (name, a) # post \<and> after_failures E pre s = Some s1 \<and>
         connect_and_list E a (print (CN (Testing name)) s1) = (Inr cols, s2) \<and>
         s' = prints (CN (SuccessFound (length cols)) # map (\<lambda>c. CN (CollectionName (fst c))) cols) s2 \<and>
         opens (trace s') = opens (trace s) @ map snd pre @ [a]"
  proof -
    from that obtain pre name a post s1 cols s2 where
      split: "as = pre @ (name, a) # post" and fails: "after_failures E pre s = Some s1" and
      ok: "connect_and_list E a (print (CN (Testing name)) s1) = (Inr cols, s2)" and
      final: "s' = prints (CN (SuccessFound (length cols)) # map (\<lambda>c. CN (CollectionName (fst c))) cols) s2"
      by blast
    from try_approaches_skip [OF fails, of "(name, a) # post"] split ok final show ?thesis
      by (simp add: Let_def)
  qed
  have a3: "opens (trace s') = opens (trace s) @ map snd as" if "try_approaches E as s = (False, s')"
    using that after_failures_opens [of E as s s'] by (simp add: try_approaches_False)
  have b1: "\<exists>pre a post t1 cols t2.
         cs = pre @ a # post \<and> after_config_failures E pre i t = Some t1 \<and>
         connect_and_list E a (print (MT (TryingConfiguration (i + length pre + 1) a)) t1) = (Inr cols, t2) \<and>
         t' = print (MT (SuccessWith (length cols))) t2 \<and>
         opens (trace t') = opens (trace t) @ pre @ [a]"
    if run: "try_configs E cs i t = (True, t')"
  proof -
    from try_configs_True [OF run] obtain pre a post t1 cols t2 where
      split: "cs = pre @ a # post" and fails: "after_config_failures E pre i t = Some t1" and
      ok: "connect_and_list E a (print (MT (TryingConfiguration (i + length pre + 1) a)) t1) = (Inr cols, t2)" and
      final: "t' = print (MT (SuccessWith (length cols))) t2"
      by blast
    from connect_and_list_opens [OF ok] after_config_failures_opens [OF fails]
    have "opens (trace t2) = opens (trace t) @ pre @ [a]"
      by (simp add: trace_print opens_append opens_def)
    with final have "opens (trace t') = opens (trace t) @ pre @ [a]"
      by (simp add: trace_print opens_append opens_def)
    with split fails ok final show ?thesis by blast
  qed
  have b2: "try_configs E cs i t = (True, t')"
    if "\<exists>pre a post t1 cols t2.
         cs = pre @ a # post \<and> after_config_failures E pre i t = Some t1 \<and>
         connect_and_list E a (print (MT (TryingConfiguration (i + length pre + 1) a)) t1) = (Inr cols, t2) \<and>
         t' = print (MT (SuccessWith (length cols))) t2 \<and>
         opens (trace t') = opens (trace t) @ pre @ [a]"
  proof -
    from that obtain pre a post t1 cols t2 where
      split: "cs = pre @ a # post" and fails: "after_config_failures E pre i t = Some t1" and
      ok: "connect_and_list E a (print (MT (TryingConfiguration (i + length pre + 1) a)) t1) = (Inr cols, t2)" and
      final: "t' = print (MT (SuccessWith (length cols))) t2"
      by blast
    from try_configs_skip [OF fails, of "a # post"] split ok final show ?thesis
      by (simp add: Let_def)
  qed
  have b3: "opens (trace t') = opens (trace t) @ cs" if "try_configs E cs i t = (False, t')"
    using that after_config_failures_opens [of E cs i t t'] by (simp add: try_configs_False)
  from a1 a2 have A: "try_approaches E as s = (True, s') \<longleftrightarrow>
      (\<exists>pre name a post s1 cols s2.
         as = pre @ (name, a) # post \<and> after_failures E pre s = Some s1 \<and>
         connect_and_list E a (print (CN (Testing name)) s1) = (Inr cols, s2) \<and>
         s' = prints (CN (SuccessFound (length cols)) # map (\<lambda>c. CN (CollectionName (fst c))) cols) s2 \<and>
         opens (trace s') = opens (trace s) @ map snd pre @ [a])"
    by blast
  from b1 b2 have B: "try_configs E cs i t = (True, t') \<longleftrightarrow>
      (\<exists>pre a post t1 cols t2.
         cs = pre @ a # post \<and> after_config_failures E pre i t = Some t1 \<and>
         connect_and_list E a (print (MT (TryingConfiguration (i + length pre + 1) a)) t1) = (Inr cols, t2) \<and>
         t' = print (MT (SuccessWith (length cols))) t2 \<and>
         opens (trace t') = opens (trace t) @ pre @ [a])"
    by blast
  from A B a3 b3 try_approaches_False [of E as s s'] try_configs_False [of E cs i t t']
  show ?thesis by blast
qed

theorem testers_stop_at_first_success_witness:
  "(\<exists>pre name a post s1 cols s2.
      approaches ''/data/chroma'' = pre @ (name, a) # post \<and>
      after_failures (example_env example_loads second_try_client) pre start = Some s1 \<and>
      connect_and_list (example_env example_loads second_try_client) a (print (CN (Testing name)) s1) = (Inr cols, s2) \<and>
      snd (try_approaches (example_env example_loads second_try_client) (approaches ''/data/chroma'') start) =
        prints (CN (SuccessFound (length cols)) # map (\<lambda>c. CN (CollectionName (fst c))) cols) s2 \<and>
      opens (trace (snd (try_approaches (example_env example_loads second_try_client) (approaches ''/data/chroma'') start))) =
        opens (trace start) @ map snd pre @ [a])
   \<and> after_config_failures (example_env example_loads (refusing_client ''KeyError'')) (configs ''/data/chroma'') 0 start =
       Some (snd (try_configs (example_env example_loads (refusing_client ''KeyError'')) (configs ''/data/chroma'') 0 start))"
proof -
  let ?E = "example_env example_loads second_try_client"
  let ?run = "try_approaches ?E (approaches ''/data/chroma'') start"
  let ?F = "example_env example_loads (refusing_client ''KeyError'')"
  let ?lost = "try_configs ?F (configs ''/data/chroma'') 0 start"
  have ok: "fst ?run = True" by code_simp
  have run: "?run = (True, snd ?run)" by (rule prod_eqI) (simp_all add: ok)
  have no: "fst ?lost = False" by code_simp
  have lost: "?lost = (False, snd ?lost)" by (rule prod_eqI) (simp_all add: no)
  note inst1 = testers_stop_at_first_success
    [of ?E "approaches ''/data/chroma''" start "snd ?run" "configs ''/data/chroma''" 0 start "snd ?lost"]
  note inst2 = testers_stop_at_first_success
    [of ?F "approaches ''/data/chroma''" start "snd ?run" "configs ''/data/chroma''" 0 start "snd ?lost"]
  have first: "\<exists>pre name a post s1 cols s2.
      approaches ''/data/chroma'' = pre @ (name, a) # post \<and>
      after_failures ?E pre start = Some s1 \<and>
      connect_and_list ?E a (print (CN (Testing name)) s1) = (Inr cols, s2) \<and>
      snd ?run = prints (CN (SuccessFound (length cols)) # map (\<lambda>c. CN (CollectionName (fst c))) cols) s2 \<and>
      opens (trace (snd ?run)) = opens (trace start) @ map snd pre @ [a]"
    by (rule iffD1 [OF conjunct1 [OF inst1] run])
  have second: "after_config_failures ?F (configs ''/data/chroma'') 0 start = Some (snd ?lost)"
    by (rule iffD1 [OF conjunct1 [OF conjunct2 [OF conjunct2 [OF conjunct2 [OF conjunct2 [OF inst2]]]]] lost])
  show ?thesis by (rule conjI [OF first second])
qed

text \<open>
  When both configurations of \<open>test_database_migration\<close> fail with a \<open>KeyError\<close> whose
  message is \<open>_type\<close>, it prints \<open>Failed: _type\<close> twice and nothing of the kind: the
  trace is the one of a run in which they fail with a \<open>ValueError\<close>.
\<close>

theorem message_without_kind_counterexample:
  "fst (test_database_migration (example_env example_loads (refusing_client ''KeyError'')) ''/data/chroma'' start) = Inr False
   \<and> trace (snd (test_database_migration (example_env example_loads (refusing_client ''KeyError'')) ''/data/chroma'' start)) =
       [Print (MT TestingMigrationBanner),
        Print (MT (CreatingBackupAt ''/data/chroma_backup'')),
        CopyTree ''/data/chroma'' ''/data/chroma_backup'',
        Print (MT (TryingConfiguration 1 (PathOnly ''/data/chroma''))),
        ClientOpen (PathOnly ''/data/chroma''),
        Print (MT (Failed ''_type'')),
        Print (MT (TryingConfiguration 2 (PathAllowResetKeyword ''/data/chroma''))),
        ClientOpen (PathAllowResetKeyword ''/data/chroma''),
        Print (MT (Failed ''_type''))]
   \<and> trace (snd (test_database_migration (example_env example_loads (refusing_client ''ValueError'')) ''/data/chroma'' start)) =
       trace (snd (test_database_migration (example_env example_loads (refusing_client ''KeyError'')) ''/data/chroma'' start))"
  by code_simp

section \<open>A database path that does not exist\<close>

lemma prints_Nil: "prints [] s = s"
  by (simp add: prints_def)

lemma prints_prints: "prints b (prints a s) = prints (a @ b) s"
  by (simp add: prints_def)

lemma print_prints: "print m (prints a s) = prints (a @ [m]) s"
  by (simp add: prints_def)

lemma version_info_only_prints: "\<exists>ms. snd (check_chromadb_version_info E s) = prints ms s"
proof -
  have "\<exists>ms. prints a (prints b s) = prints ms s" for a b
    by (simp add: prints_prints) blast
  moreover have "\<exists>ms. print m (prints b s) = prints ms s" for m b
    by (simp add: print_prints) blast
  moreover have "\<exists>ms. prints b s = prints ms s" for b
    by blast
  ultimately show ?thesis
    by (simp add: check_chromadb_version_info_def Let_def)
qed

lemma connect_and_list_trace:
  "connect_and_list E a s = (r, s') \<Longrightarrow> \<exists>ext. trace s' = trace s @ ClientOpen a # ext"
  by (auto simp: connect_and_list_def open_client_def client_list_collections_def emit_def
      split: prod.splits sum.splits)

lemma try_configs_trace:
  "try_configs E cs i s = (r, s') \<Longrightarrow> \<exists>ext. trace s' = trace s @ ext"
proof (induction E cs i s rule: try_configs.induct)
  case (1 E i s)
  then show ?case by simp
next
  case (2 E config configs i s)
  obtain r2 s2 where c: "connect_and_list E config (print (MT (TryingConfiguration (i + 1) config)) s) = (r2, s2)"
    by (cases "connect_and_list E config (print (MT (TryingConfiguration (i + 1) config)) s)")
  from connect_and_list_trace [OF c] obtain e1 where t2: "trace s2 = trace s @ Print (MT (TryingConfiguration (i + 1) config)) # ClientOpen config # e1"
    by (auto simp: trace_print)
  show ?case
  proof (cases r2)
    case (Inr cols)
    with c "2.prems" t2 show ?thesis by (auto simp: Let_def trace_print)
  next
    case (Inl e)
    with c "2.prems" have rest: "try_configs E configs (i + 1) (print (MT (Failed (exc_msg e))) s2) = (r, s')"
      by (simp add: Let_def)
    from "2.IH" [OF refl c [symmetric] Inl rest] t2 show ?thesis
      by (auto simp: trace_print)
  qed
qed

lemma try_configs_first_open:
  "try_configs E (a # cs) i s = (r, s') \<Longrightarrow> ClientOpen a \<in> set (trace s')"
proof -
  assume run: "try_configs E (a # cs) i s = (r, s')"
  obtain r2 s2 where c: "connect_and_list E a (print (MT (TryingConfiguration (i + 1) a)) s) = (r2, s2)"
    by (cases "connect_and_list E a (print (MT (TryingConfiguration (i + 1) a)) s)")
  from connect_and_list_trace [OF c] have t2: "ClientOpen a \<in> set (trace s2)" by auto
  show ?thesis
  proof (cases r2)
    case (Inr cols)
    with c run t2 show ?thesis by (auto simp: Let_def trace_print)
  next
    case (Inl e)
    with c run have rest: "try_configs E cs (i + 1) (print (MT (Failed (exc_msg e))) s2) = (r, s')"
      by (simp add: Let_def)
    from try_configs_trace [OF rest] t2 show ?thesis by (auto simp: trace_print)
  qed
qed

lemma copytree_trace:
  "shutil_copytree E src dst s = (r, s') \<Longrightarrow> trace s' = trace s @ [CopyTree src dst]"
  by (auto simp: shutil_copytree_def emit_def split: prod.splits)

lemma migration_test_on_missing_path:
  assumes "test_database_migration E db_path s = (r, s')"
  shows "if path_exists E (db_path @ ''_backup'') (world s)
         then ClientOpen (PathOnly db_path) \<in> set (trace s')
         else CopyTree db_path (db_path @ ''_backup'') \<in> set (trace s')"
proof (cases "path_exists E (db_path @ ''_backup'') (world s)")
  case True
  obtain ok t where run: "try_configs E (PathOnly db_path # [PathAllowResetKeyword db_path]) 0 (print (MT TestingMigrationBanner) s) = (ok, t)"
    by (cases "try_configs E (PathOnly db_path # [PathAllowResetKeyword db_path]) 0 (print (MT TestingMigrationBanner) s)")
  from try_configs_first_open [OF run] have "ClientOpen (PathOnly db_path) \<in> set (trace t)" .
  with True assms run show ?thesis
    by (auto simp: test_database_migration_def Let_def world_print configs_def)
next
  case False
  obtain rc t where cp: "shutil_copytree E db_path (db_path @ ''_backup'')
      (print (MT (CreatingBackupAt (db_path @ ''_backup''))) (print (MT TestingMigrationBanner) s)) = (rc, t)"
    by (cases "shutil_copytree E db_path (db_path @ ''_backup'')
      (print (MT (CreatingBackupAt (db_path @ ''_backup''))) (print (MT TestingMigrationBanner) s))")
  from copytree_trace [OF cp] have in_t: "CopyTree db_path (db_path @ ''_backup'') \<in> set (trace t)" by simp
  show ?thesis
  proof (cases rc)
    case (Inl e)
    with False assms cp in_t show ?thesis
      by (auto simp: test_database_migration_def Let_def world_print)
  next
    case (Inr u)
    obtain ok t2 where run: "try_configs E (configs db_path) 0 t = (ok, t2)"
      by (cases "try_configs E (configs db_path) 0 t")
    from try_configs_trace [OF run] in_t have "CopyTree db_path (db_path @ ''_backup'') \<in> set (trace t2)" by auto
    with False assms cp Inr run show ?thesis
      by (auto simp: test_database_migration_def Let_def world_print)
  qed
qed


lemma test_database_migration_trace:
  "test_database_migration E db_path s = (r, s') \<Longrightarrow> \<exists>ext. trace s' = trace s @ ext"
proof -
  assume run: "test_database_migration E db_path s = (r, s')"
  let ?s1 = "print (MT TestingMigrationBanner) s"
  show ?thesis
  proof (cases "path_exists E (db_path @ ''_backup'') (world s)")
    case True
    obtain ok t where tc: "try_configs E (configs db_path) 0 ?s1 = (ok, t)"
      by (cases "try_configs E (configs db_path) 0 ?s1")
    from try_configs_trace [OF tc] True run tc show ?thesis
      by (auto simp: test_database_migration_def Let_def world_print trace_print)
  next
    case False
    obtain rc t where cp: "shutil_copytree E db_path (db_path @ ''_backup'')
        (print (MT (CreatingBackupAt (db_path @ ''_backup''))) ?s1) = (rc, t)"
      by (cases "shutil_copytree E db_path (db_path @ ''_backup'')
        (print (MT (CreatingBackupAt (db_path @ ''_backup''))) ?s1)")
    from copytree_trace [OF cp] have t: "\<exists>e. trace t = trace s @ e" by (simp add: trace_print)
    show ?thesis
    proof (cases rc)
      case (Inl e)
      with False run cp t show ?thesis
        by (auto simp: test_database_migration_def Let_def world_print)
    next
      case (Inr u)
      obtain ok t2 where tc: "try_configs E (configs db_path) 0 t = (ok, t2)"
        by (cases "try_configs E (configs db_path) 0 t")
      from try_configs_trace [OF tc] t False run cp Inr tc show ?thesis
        by (auto simp: test_database_migration_def Let_def world_print)
    qed
  qed
qed

text \<open>
  C8. The version analysis prints the error and returns: it prints and does nothing
  else. The diagnostic does not return: \<open>analyze_chroma_database\<close> prints the error and
  returns \<open>False\<close>, which \<open>main\<close> takes for a database that could not be opened, so it calls
  \<open>test_database_migration\<close>. That function asks \<open>shutil.copytree\<close> for a backup of the
  missing directory; when a path with the name of the backup exists already, it tries to
  open the client on the missing path.
\<close>

theorem missing_path_stops_only_the_version_analysis:
  assumes "\<not> path_exists E db_path (world s)"
  shows "(\<exists>ms. version_analysis_main E [prog, db_path] s = (Inr (), prints ms s))
       \<and> (\<exists>r s'. diagnostic_main E [prog, db_path] s = (r, s') \<and>
             Print (DF (ErrDatabasePathMissing db_path)) \<in> set (trace s') \<and>
             (if path_exists E (db_path @ ''_backup'') (world s)
              then ClientOpen (PathOnly db_path) \<in> set (trace s')
              else CopyTree db_path (db_path @ ''_backup'') \<in> set (trace s')))"
proof -
  let ?s1 = "prints [VM TitleVersionAnalysis, VM RuleVersionAnalysis] s"
  from version_info_only_prints [of E ?s1] obtain ms where
    info: "snd (check_chromadb_version_info E ?s1) = prints ms ?s1" by blast
  have "version_analysis_main E [prog, db_path] s =
          (Inr (), prints ([VM TitleVersionAnalysis, VM RuleVersionAnalysis] @ ms @ [VM (ErrPathDoesNotExist db_path)]) s)"
    using assms info
    by (simp add: version_analysis_main_def Let_def split_beta world_prints prints_prints print_prints)
  then have version: "\<exists>ms. version_analysis_main E [prog, db_path] s = (Inr (), prints ms s)"
    by blast
  let ?d1 = "prints [DM TitleDiagnostic, DM RuleDiagnostic] s"
  let ?d2 = "print (DF (ErrDatabasePathMissing db_path))
               (prints [DF (AnalyzingAt db_path), DF (ClientVersionIs (chromadb_version E))] ?d1)"
  let ?d3 = "print (DM AttemptingRepairBanner) ?d2"
  have analysis: "analyze_chroma_database E db_path ?d1 = (Inr False, ?d2)"
    using assms by (simp add: analyze_chroma_database_def Let_def world_prints)
  obtain r t where mig: "test_database_migration E db_path ?d3 = (r, t)"
    by (cases "test_database_migration E db_path ?d3")
  have w3: "world ?d3 = world s" by (simp add: world_print world_prints)
  from migration_test_on_missing_path [OF mig] w3
  have calls: "if path_exists E (db_path @ ''_backup'') (world s)
         then ClientOpen (PathOnly db_path) \<in> set (trace t)
         else CopyTree db_path (db_path @ ''_backup'') \<in> set (trace t)"
    by simp
  obtain ext where grows: "trace t = trace ?d3 @ ext"
    using test_database_migration_trace [OF mig] by blast
  have printed: "Print (DF (ErrDatabasePathMissing db_path)) \<in> set (trace t)"
    unfolding grows by (simp add: trace_print)
  have "\<exists>r s'. diagnostic_main E [prog, db_path] s = (r, s') \<and>
             Print (DF (ErrDatabasePathMissing db_path)) \<in> set (trace s') \<and>
             (if path_exists E (db_path @ ''_backup'') (world s)
              then ClientOpen (PathOnly db_path) \<in> set (trace s')
              else CopyTree db_path (db_path @ ''_backup'') \<in> set (trace s'))"
  proof (cases r)
    case (Inl e)
    with analysis mig have "diagnostic_main E [prog, db_path] s = (Inl e, t)"
      by (simp add: diagnostic_main_def Let_def)
    with calls printed show ?thesis by simp
  next
    case (Inr b)
    let ?t' = "prints (DM DiagnosticRecommendationsBanner #
                 DM DatabaseIncompatible # map (\<lambda>n. DM (DiagnosticAdvice n)) [1, 2, 3, 4]) t"
    from Inr analysis mig have "diagnostic_main E [prog, db_path] s = (Inr (), ?t')"
      by (simp add: diagnostic_main_def Let_def)
    moreover have "set (trace t) \<subseteq> set (trace ?t')" by (auto simp: trace_prints)
    ultimately show ?thesis using calls printed
      by (cases "path_exists E (db_path @ ''_backup'') (world s)") auto
  qed
  with version show ?thesis by blast
qed

text \<open>
  In the small world \<open>/missing\<close> does not exist. The exception of \<open>shutil.copytree\<close> ends
  the run of the diagnostic; with \<open>/missing_backup\<close> in place the client is opened
  twice.
\<close>

theorem missing_path_stops_only_the_version_analysis_witness:
  "\<not> path_exists (example_env example_loads (refusing_client ''KeyError'')) ''/missing'' (world start)
   \<and> (\<exists>ms. version_analysis_main (example_env example_loads (refusing_client ''KeyError''))
          [''chroma_version_analysis.py'', ''/missing''] start = (Inr (), prints ms start))
   \<and> version_analysis_main (example_env example_loads (refusing_client ''KeyError''))
        [''chroma_version_analysis.py'', ''/missing''] start =
       (Inr (),
        start\<lparr>trace :=
          [Print (VM TitleVersionAnalysis), Print (VM RuleVersionAnalysis),
           Print (VI VersionInfoBanner), Print (VI (VersionIs ''0.6.3'')),
           Print (VI WarnVersion06), Print (VI RecommendFor06),
           Print (VM (ErrPathDoesNotExist ''/missing''))]\<rparr>)
   \<and> diagnostic_main (example_env example_loads (refusing_client ''KeyError''))
        [''chroma_diagnostic.py'', ''/missing''] start =
       (Inl (missing_source ''/missing''),
        start\<lparr>trace :=
          [Print (DM TitleDiagnostic), Print (DM RuleDiagnostic),
           Print (DF (AnalyzingAt ''/missing'')), Print (DF (ClientVersionIs ''0.6.3'')),
           Print (DF (ErrDatabasePathMissing ''/missing'')),
           Print (DM AttemptingRepairBanner),
           Print (MT TestingMigrationBanner),
           Print (MT (CreatingBackupAt ''/missing_backup'')),
           CopyTree ''/missing'' ''/missing_backup'']\<rparr>)
   \<and> trace (snd (diagnostic_main (example_env example_loads (refusing_client ''KeyError''))
        [''chroma_diagnostic.py'', ''/missing'']
        (start\<lparr>world := (world start)\<lparr>existing := [''/missing_backup'']\<rparr>\<rparr>))) =
       [Print (DM TitleDiagnostic), Print (DM RuleDiagnostic),
        Print (DF (AnalyzingAt ''/missing'')), Print (DF (ClientVersionIs ''0.6.3'')),
        Print (DF (ErrDatabasePathMissing ''/missing'')),
        Print (DM AttemptingRepairBanner),
        Print (MT TestingMigrationBanner),
        Print (MT (TryingConfiguration 1 (PathOnly ''/missing''))),
        ClientOpen (PathOnly ''/missing''),
        Print (MT (Failed ''_type'')),
        Print (MT (TryingConfiguration 2 (PathAllowResetKeyword ''/missing''))),
        ClientOpen (PathAllowResetKeyword ''/missing''),
        Print (MT (Failed ''_type'')),
        Print (DM DiagnosticRecommendationsBanner),
        Print (DM DatabaseIncompatible), Print (DM (DiagnosticAdvice 1)),
        Print (DM (DiagnosticAdvice 2)), Print (DM (DiagnosticAdvice 3)),
        Print (DM (DiagnosticAdvice 4))]"
proof -
  have h: "\<not> path_exists (example_env example_loads (refusing_client ''KeyError'')) ''/missing'' (world start)"
    by code_simp
  have e1: "diagnostic_main (example_env example_loads (refusing_client ''KeyError''))
        [''chroma_diagnostic.py'', ''/missing''] start =
       (Inl (missing_source ''/missing''),
        start\<lparr>trace :=
          [Print (DM TitleDiagnostic), Print (DM RuleDiagnostic),
           Print (DF (AnalyzingAt ''/missing'')), Print (DF (ClientVersionIs ''0.6.3'')),
           Print (DF (ErrDatabasePathMissing ''/missing'')),
           Print (DM AttemptingRepairBanner),
           Print (MT TestingMigrationBanner),
           Print (MT (CreatingBackupAt ''/missing_backup'')),
           CopyTree ''/missing'' ''/missing_backup'']\<rparr>)"
    by code_simp
  have e2: "trace (snd (diagnostic_main (example_env example_loads (refusing_client ''KeyError''))
        [''chroma_diagnostic.py'', ''/missing'']
        (start\<lparr>world := (world start)\<lparr>existing := [''/missing_backup'']\<rparr>\<rparr>))) =
       [Print (DM TitleDiagnostic), Print (DM RuleDiagnostic),
        Print (DF (AnalyzingAt ''/missing'')), Print (DF (ClientVersionIs ''0.6.3'')),
        Print (DF (ErrDatabasePathMissing ''/missing'')),
        Print (DM AttemptingRepairBanner),
        Print (MT TestingMigrationBanner),
        Print (MT (TryingConfiguration 1 (PathOnly ''/missing''))),
        ClientOpen (PathOnly ''/missing''),
        Print (MT (Failed ''_type'')),
        Print (MT (TryingConfiguration 2 (PathAllowResetKeyword ''/missing''))),
        ClientOpen (PathAllowResetKeyword ''/missing''),
        Print (MT (Failed ''_type'')),
        Print (DM DiagnosticRecommendationsBanner),
        Print (DM DatabaseIncompatible), Print (DM (DiagnosticAdvice 1)),
        Print (DM (DiagnosticAdvice 2)), Print (DM (DiagnosticAdvice 3)),
        Print (DM (DiagnosticAdvice 4))]"
    by code_simp
  have e3: "version_analysis_main (example_env example_loads (refusing_client ''KeyError''))
        [''chroma_version_analysis.py'', ''/missing''] start =
       (Inr (),
        start\<lparr>trace :=
          [Print (VM TitleVersionAnalysis), Print (VM RuleVersionAnalysis),
           Print (VI VersionInfoBanner), Print (VI (VersionIs ''0.6.3'')),
           Print (VI WarnVersion06), Print (VI RecommendFor06),
           Print (VM (ErrPathDoesNotExist ''/missing''))]\<rparr>)"
    by code_simp
  have v: "\<exists>ms. version_analysis_main (example_env example_loads (refusing_client ''KeyError''))
          [''chroma_version_analysis.py'', ''/missing''] start = (Inr (), prints ms start)"
    by (rule conjunct1 [OF missing_path_stops_only_the_version_analysis [OF h]])
  show ?thesis
    by (rule conjI [OF h conjI [OF v conjI [OF e3 conjI [OF e1 e2]]]])
qed

end
